theory Spec2Isabelle
  imports Main "HOL-Library.Word" "HOL-Library.Multiset" "HOL-Library.Sublist"
begin

section \<open>Machine types\<close>

text \<open>
  The embedding follows \<^verbatim>\<open>src/jni/sodium_jni_buffer.c\<close> on an LP64 target: pointers and
  \<^verbatim>\<open>size_t\<close> are 64 bits wide, \<^verbatim>\<open>jint\<close> and C's \<^verbatim>\<open>int\<close> are 32 bits, \<^verbatim>\<open>jlong\<close> is
  64 bits. Java references (\<^verbatim>\<open>jobject\<close>, \<^verbatim>\<open>jbyteArray\<close>) are opaque; they are numbered,
  and the reference \<open>0\<close> is \<^verbatim>\<open>NULL\<close>.
\<close>

type_synonym byte = "8 word"
type_synonym jint = "32 word"
type_synonym jlong = "64 word"
type_synonym size_t = "64 word"
type_synonym addr = "64 word"
type_synonym jobject = nat
type_synonym jbyteArray = nat

text \<open>
  The conversions \<^verbatim>\<open>(size_t) x\<close> of a signed \<^verbatim>\<open>jint\<close> or \<^verbatim>\<open>jlong\<close>: C converts a
  signed value to the unsigned type modulo \<open>2 ^ 64\<close>, which is sign extension.
\<close>

definition size_t_of_jint :: "jint \<Rightarrow> size_t" where
  "size_t_of_jint x = scast x"

definition size_t_of_jlong :: "jlong \<Rightarrow> size_t" where
  "size_t_of_jlong x = scast x"

text \<open>The release modes of \<^verbatim>\<open>jni.h\<close>.\<close>

definition JNI_COMMIT :: jint where
  "JNI_COMMIT = 1"

definition JNI_ABORT :: jint where
  "JNI_ABORT = 2"

section \<open>The buffer descriptor\<close>

text \<open>\<^verbatim>\<open>typedef struct stodium_buffers { ... } stodium_buffer;\<close>\<close>

record stodium_buffer =
  content :: addr
  offset :: size_t
  capacity :: size_t
  is_direct :: bool
  backing_array :: jbyteArray

text \<open>\<^verbatim>\<open>AS_INPUT\<close> and \<^verbatim>\<open>AS_OUTPUT\<close>: the pointer \<^verbatim>\<open>buffer.content + buffer.offset\<close>.\<close>

definition AS_INPUT :: "stodium_buffer \<Rightarrow> addr" where
  "AS_INPUT buffer = content buffer + offset buffer"

definition AS_OUTPUT :: "stodium_buffer \<Rightarrow> addr" where
  "AS_OUTPUT buffer = content buffer + offset buffer"

section \<open>The Java runtime behind \<^verbatim>\<open>JNIEnv\<close>\<close>

text \<open>
  The three method ids cached by \<^verbatim>\<open>JNI_OnLoad\<close>. The wrappers run only after
  \<^verbatim>\<open>JNI_OnLoad\<close> returned \<^verbatim>\<open>JNI_VERSION_1_6\<close> (the runtime refuses to load the library
  otherwise), so the three ids are valid whenever a wrapper runs.
\<close>

datatype jmethodID =
    stodium_g_byte_buffer_method_array
  | stodium_g_byte_buffer_method_array_offset
  | stodium_g_byte_buffer_method_remaining

text \<open>
  A log entry for every call that matters to the release discipline. The log is ghost
  state: the C code has no counterpart of it and no modelled function reads it.
  \<open>Call_stodium_get_buffer\<close> is logged when the function returns, with the descriptor it
  wrote to \<^verbatim>\<open>dst\<close>; \<open>Call_primitive\<close> is logged when the primitive returns, with its
  pointer arguments and its status; every other entry is logged when the call is made.
\<close>

datatype call =
    Call_stodium_get_buffer jobject stodium_buffer
  | Call_stodium_release_output jobject stodium_buffer
  | Call_stodium_release_input jobject stodium_buffer
  | Call_primitive "addr list" jint
  | Call_GetDirectBufferAddress jobject
  | Call_GetDirectBufferCapacity jobject
  | Call_CallObjectMethod jobject jmethodID
  | Call_CallIntMethod jobject jmethodID
  | Call_GetByteArrayElements jbyteArray
  | Call_ReleaseByteArrayElements jbyteArray addr jint

text \<open>
  The runtime is not code of this repository. It is taken as it answers:
  \<^item> \<open>direct_address\<close>, \<open>direct_capacity\<close>: what \<^verbatim>\<open>GetDirectBufferAddress\<close> and
    \<^verbatim>\<open>GetDirectBufferCapacity\<close> return for a buffer object (address \<open>0\<close>: the buffer is
    not direct);
  \<^item> \<open>object_method\<close>, \<open>int_method\<close>: what calling a cached method on a buffer object
    returns, \<open>None\<close> when the method throws;
  \<^item> \<open>copy_address\<close>: the native address the runtime chooses for the \<open>n\<close>-th copy of
    array elements it is asked for (\<open>0\<close>: the copy cannot be made), \<open>copies_made\<close>
    counting the requests;
  \<^item> \<open>heap\<close>: the contents of the live Java byte arrays;
  \<^item> \<open>memory\<close>: native memory, which direct buffers and element copies live in;
  \<^item> \<open>pins\<close>: the element copies handed out and not yet freed, each with its array;
  \<^item> \<open>exception_pending\<close>: a Java exception waits to be thrown when the native method
    returns;
  \<^item> \<open>calls\<close>: the ghost log.
\<close>

record jvm =
  direct_address :: "jobject \<Rightarrow> addr"
  direct_capacity :: "jobject \<Rightarrow> jlong"
  object_method :: "jmethodID \<Rightarrow> jobject \<Rightarrow> jobject option"
  int_method :: "jmethodID \<Rightarrow> jobject \<Rightarrow> jint option"
  copy_address :: "nat \<Rightarrow> addr"
  copies_made :: nat
  heap :: "jbyteArray \<Rightarrow> byte list option"
  memory :: "addr \<Rightarrow> byte"
  pins :: "(jbyteArray \<times> addr) multiset"
  exception_pending :: bool
  calls :: "call list"

definition record_call :: "call \<Rightarrow> jvm \<Rightarrow> jvm" where
  "record_call c s = s\<lparr>calls := calls s @ [c]\<rparr>"

definition read_bytes :: "(addr \<Rightarrow> byte) \<Rightarrow> addr \<Rightarrow> nat \<Rightarrow> byte list" where
  "read_bytes m p n = map (\<lambda>i. m (p + of_nat i)) [0..<n]"

definition write_bytes :: "(addr \<Rightarrow> byte) \<Rightarrow> addr \<Rightarrow> byte list \<Rightarrow> addr \<Rightarrow> byte" where
  "write_bytes m p bs = (\<lambda>a. if unat (a - p) < length bs then bs ! unat (a - p) else m a)"

subsection \<open>The JNI functions the code calls\<close>

definition GetDirectBufferAddress :: "jobject \<Rightarrow> jvm \<Rightarrow> addr \<times> jvm" where
  "GetDirectBufferAddress buf s =
     (direct_address s buf, record_call (Call_GetDirectBufferAddress buf) s)"

definition GetDirectBufferCapacity :: "jobject \<Rightarrow> jvm \<Rightarrow> jlong \<times> jvm" where
  "GetDirectBufferCapacity buf s =
     (direct_capacity s buf, record_call (Call_GetDirectBufferCapacity buf) s)"

text \<open>
  A method that throws leaves its exception pending and the call returns \<^verbatim>\<open>NULL\<close>
  (\<open>0\<close> for an \<^verbatim>\<open>int\<close> method). The runtime goes on answering later calls.
\<close>

definition CallObjectMethod :: "jobject \<Rightarrow> jmethodID \<Rightarrow> jvm \<Rightarrow> jobject \<times> jvm" where
  "CallObjectMethod obj mid s0 =
     (let s = record_call (Call_CallObjectMethod obj mid) s0 in
      case object_method s mid obj of
        Some r \<Rightarrow> (r, s)
      | None \<Rightarrow> (0, s\<lparr>exception_pending := True\<rparr>))"

definition CallIntMethod :: "jobject \<Rightarrow> jmethodID \<Rightarrow> jvm \<Rightarrow> jint \<times> jvm" where
  "CallIntMethod obj mid s0 =
     (let s = record_call (Call_CallIntMethod obj mid) s0 in
      case int_method s mid obj of
        Some r \<Rightarrow> (r, s)
      | None \<Rightarrow> (0, s\<lparr>exception_pending := True\<rparr>))"

text \<open>
  \<^verbatim>\<open>GetByteArrayElements(env, array, NULL)\<close>: the runtime copies the elements of the
  array to native memory and hands out the address of the copy, or returns \<^verbatim>\<open>NULL\<close>
  when the operation fails (no room for the copy). The JNI specification leaves the call
  on a \<^verbatim>\<open>NULL\<close> or dead reference undefined; here it hands out nothing and returns
  \<^verbatim>\<open>NULL\<close>.
\<close>

definition GetByteArrayElements :: "jbyteArray \<Rightarrow> jvm \<Rightarrow> addr \<times> jvm" where
  "GetByteArrayElements array s0 =
     (let s = record_call (Call_GetByteArrayElements array) s0 in
      if array = 0 then (0, s)
      else
        case heap s array of
          None \<Rightarrow> (0, s)
        | Some bs \<Rightarrow>
            (let p = copy_address s (copies_made s);
                 s = s\<lparr>copies_made := Suc (copies_made s)\<rparr>
             in if p = 0 then (0, s)
                else (p, s\<lparr>memory := write_bytes (memory s) p bs,
                            pins := add_mset (array, p) (pins s)\<rparr>)))"

text \<open>
  \<^verbatim>\<open>ReleaseByteArrayElements(env, array, elems, mode)\<close>: mode \<open>0\<close> copies the elements
  back to the array and frees the copy, \<^verbatim>\<open>JNI_COMMIT\<close> copies back and keeps the copy,
  \<^verbatim>\<open>JNI_ABORT\<close> frees the copy and copies nothing back. The copy that goes back is the
  whole array: the call is given no offset and no length. A pointer that is not an
  outstanding copy of the array is left alone.
\<close>

definition ReleaseByteArrayElements :: "jbyteArray \<Rightarrow> addr \<Rightarrow> jint \<Rightarrow> jvm \<Rightarrow> jvm" where
  "ReleaseByteArrayElements array elems mode s0 =
     (let s = record_call (Call_ReleaseByteArrayElements array elems mode) s0 in
      if (array, elems) \<in># pins s then
        (let s = (case heap s array of
                    None \<Rightarrow> s
                  | Some bs \<Rightarrow>
                      if mode = 0 \<or> mode = JNI_COMMIT
                      then s\<lparr>heap := (heap s)(array \<mapsto> read_bytes (memory s) elems (length bs))\<rparr>
                      else s)
         in if mode = 0 \<or> mode = JNI_ABORT
            then s\<lparr>pins := pins s - {#(array, elems)#}\<rparr>
            else s)
      else s)"

section \<open>The buffer resolver\<close>

text \<open>
  \<^verbatim>\<open>void stodium_get_buffer(JNIEnv *jenv, stodium_buffer *dst, jobject jbuffer)\<close>.
  The descriptor \<^verbatim>\<open>*dst\<close> is passed in and returned: the function assigns some of its
  fields and leaves the others as they were (the wrappers pass uninitialised locals).
\<close>

definition stodium_get_buffer :: "stodium_buffer \<Rightarrow> jobject \<Rightarrow> jvm \<Rightarrow> stodium_buffer \<times> jvm" where
  "stodium_get_buffer dst0 jbuffer s0 =
     (if jbuffer = 0 then
        (let dst = dst0\<lparr>content := 0, offset := 0, capacity := 0, is_direct := True\<rparr>
         in (dst, record_call (Call_stodium_get_buffer jbuffer dst) s0))
      else
        (let (p, s1) = GetDirectBufferAddress jbuffer s0;
             dst1 = dst0\<lparr>content := p\<rparr>
         in if content dst1 \<noteq> 0 then
              (let (c, s2) = GetDirectBufferCapacity jbuffer s1;
                   dst = dst1\<lparr>offset := 0, capacity := size_t_of_jlong c, is_direct := True\<rparr>
               in (dst, record_call (Call_stodium_get_buffer jbuffer dst) s2))
            else
              (let (a, s2) = CallObjectMethod jbuffer stodium_g_byte_buffer_method_array s1;
                   dst2 = dst1\<lparr>backing_array := a\<rparr>;
                   (e, s3) = GetByteArrayElements (backing_array dst2) s2;
                   dst3 = dst2\<lparr>content := e\<rparr>;
                   (off, s4) = CallIntMethod jbuffer stodium_g_byte_buffer_method_array_offset s3;
                   dst4 = dst3\<lparr>offset := size_t_of_jint off\<rparr>;
                   (rem, s5) = CallIntMethod jbuffer stodium_g_byte_buffer_method_remaining s4;
                   dst = dst4\<lparr>capacity := size_t_of_jint rem, is_direct := False\<rparr>
               in (dst, record_call (Call_stodium_get_buffer jbuffer dst) s5))))"

text \<open>\<^verbatim>\<open>void stodium_release_output(JNIEnv *jenv, jobject output, stodium_buffer *buffer)\<close>\<close>

definition stodium_release_output :: "jobject \<Rightarrow> stodium_buffer \<Rightarrow> jvm \<Rightarrow> jvm" where
  "stodium_release_output output buffer s0 =
     (let s = record_call (Call_stodium_release_output output buffer) s0 in
      if is_direct buffer then s
      else ReleaseByteArrayElements (backing_array buffer) (content buffer) 0 s)"

text \<open>\<^verbatim>\<open>void stodium_release_input(JNIEnv *jenv, jobject output, stodium_buffer *buffer)\<close>\<close>

definition stodium_release_input :: "jobject \<Rightarrow> stodium_buffer \<Rightarrow> jvm \<Rightarrow> jvm" where
  "stodium_release_input output buffer s0 =
     (let s = record_call (Call_stodium_release_input output buffer) s0 in
      if is_direct buffer \<or> content buffer = 0 then s
      else ReleaseByteArrayElements (backing_array buffer) (content buffer) JNI_ABORT s)"

section \<open>Library initialisation\<close>

text \<open>
  \<^verbatim>\<open>sodium_init()\<close> belongs to the external library: it is a parameter, a function on
  the library's own state that returns a C \<^verbatim>\<open>int\<close>.
\<close>

definition stodium_1init :: "('l \<Rightarrow> jint \<times> 'l) \<Rightarrow> 'l \<Rightarrow> jint \<times> 'l" where
  "stodium_1init sodium_init l0 =
     (let (r, l) = sodium_init l0 in
      if r = - 1 then (- 1, l) else (0, l))"

definition sodium_1init :: "('l \<Rightarrow> jint \<times> 'l) \<Rightarrow> 'l \<Rightarrow> jint \<times> 'l" where
  "sodium_1init sodium_init l0 = (let (r, l) = sodium_init l0 in (r, l))"

text \<open>
  The documented behaviour of libsodium's \<^verbatim>\<open>sodium_init()\<close> when its set-up succeeds:
  \<open>0\<close> on the first call, \<open>1\<close> once the library is initialised. The state is the
  library's \<^verbatim>\<open>initialized\<close> flag.
\<close>

definition libsodium_init :: "bool \<Rightarrow> jint \<times> bool" where
  "libsodium_init initialized = (if initialized then 1 else 0, True)"

section \<open>The primitive wrappers\<close>

text \<open>
  The primitives belong to the external library: each is a parameter, a function of its
  pointer arguments that transforms native memory and returns a C \<^verbatim>\<open>int\<close>. It has no
  \<^verbatim>\<open>JNIEnv\<close>, so it changes nothing else of the runtime.
\<close>

definition call_primitive :: "addr list \<Rightarrow> ((addr \<Rightarrow> byte) \<Rightarrow> jint \<times> (addr \<Rightarrow> byte)) \<Rightarrow> jvm \<Rightarrow> jint \<times> jvm" where
  "call_primitive args f s =
     (let (r, m) = f (memory s)
      in (r, record_call (Call_primitive args r) (s\<lparr>memory := m\<rparr>)))"

text \<open>
  \<^verbatim>\<open>Java_eu_artemisc_stodium_StodiumJNI_crypto_1core_1hsalsa20\<close>. The arguments
  \<open>dst_buffer0\<close> ... \<open>const_buffer0\<close> are the indeterminate initial contents of the four
  local descriptors.
\<close>

definition crypto_1core_1hsalsa20 ::
  "(addr \<Rightarrow> addr \<Rightarrow> addr \<Rightarrow> addr \<Rightarrow> (addr \<Rightarrow> byte) \<Rightarrow> jint \<times> (addr \<Rightarrow> byte)) \<Rightarrow>
   stodium_buffer \<Rightarrow> stodium_buffer \<Rightarrow> stodium_buffer \<Rightarrow> stodium_buffer \<Rightarrow>
   jobject \<Rightarrow> jobject \<Rightarrow> jobject \<Rightarrow> jobject \<Rightarrow> jvm \<Rightarrow> jint \<times> jvm" where
  "crypto_1core_1hsalsa20 crypto_core_hsalsa20 dst_buffer0 src_buffer0 key_buffer0 const_buffer0
       dst src key constant s0 =
     (let (dst_buffer, s1) = stodium_get_buffer dst_buffer0 dst s0;
          (src_buffer, s2) = stodium_get_buffer src_buffer0 src s1;
          (key_buffer, s3) = stodium_get_buffer key_buffer0 key s2;
          (const_buffer, s4) = stodium_get_buffer const_buffer0 constant s3;
          (result, s5) = call_primitive
             [AS_OUTPUT dst_buffer, AS_INPUT src_buffer, AS_INPUT key_buffer, AS_INPUT const_buffer]
             (crypto_core_hsalsa20 (AS_OUTPUT dst_buffer) (AS_INPUT src_buffer)
                (AS_INPUT key_buffer) (AS_INPUT const_buffer)) s4;
          s6 = stodium_release_output dst dst_buffer s5;
          s7 = stodium_release_input src src_buffer s6;
          s8 = stodium_release_input key key_buffer s7;
          s9 = stodium_release_input constant const_buffer s8
      in (result, s9))"

text \<open>\<^verbatim>\<open>Java_eu_artemisc_stodium_StodiumJNI_crypto_1scalarmult_1curve25519\<close>\<close>

definition crypto_1scalarmult_1curve25519 ::
  "(addr \<Rightarrow> addr \<Rightarrow> addr \<Rightarrow> (addr \<Rightarrow> byte) \<Rightarrow> jint \<times> (addr \<Rightarrow> byte)) \<Rightarrow>
   stodium_buffer \<Rightarrow> stodium_buffer \<Rightarrow> stodium_buffer \<Rightarrow>
   jobject \<Rightarrow> jobject \<Rightarrow> jobject \<Rightarrow> jvm \<Rightarrow> jint \<times> jvm" where
  "crypto_1scalarmult_1curve25519 crypto_scalarmult_curve25519 dst_buffer0 priv_buffer0 pub_buffer0
       dst priv pub s0 =
     (let (dst_buffer, s1) = stodium_get_buffer dst_buffer0 dst s0;
          (priv_buffer, s2) = stodium_get_buffer priv_buffer0 priv s1;
          (pub_buffer, s3) = stodium_get_buffer pub_buffer0 pub s2;
          (result, s4) = call_primitive
             [AS_OUTPUT dst_buffer, AS_INPUT priv_buffer, AS_INPUT pub_buffer]
             (crypto_scalarmult_curve25519 (AS_OUTPUT dst_buffer) (AS_INPUT priv_buffer)
                (AS_INPUT pub_buffer)) s3;
          s5 = stodium_release_output dst dst_buffer s4;
          s6 = stodium_release_input priv priv_buffer s5;
          s7 = stodium_release_input pub pub_buffer s6
      in (result, s7))"

text \<open>\<^verbatim>\<open>Java_eu_artemisc_stodium_StodiumJNI_crypto_1scalarmult_1curve25519_1base\<close>\<close>

definition crypto_1scalarmult_1curve25519_1base ::
  "(addr \<Rightarrow> addr \<Rightarrow> (addr \<Rightarrow> byte) \<Rightarrow> jint \<times> (addr \<Rightarrow> byte)) \<Rightarrow>
   stodium_buffer \<Rightarrow> stodium_buffer \<Rightarrow>
   jobject \<Rightarrow> jobject \<Rightarrow> jvm \<Rightarrow> jint \<times> jvm" where
  "crypto_1scalarmult_1curve25519_1base crypto_scalarmult_curve25519_base dst_buffer0 src_buffer0
       dst src s0 =
     (let (dst_buffer, s1) = stodium_get_buffer dst_buffer0 dst s0;
          (src_buffer, s2) = stodium_get_buffer src_buffer0 src s1;
          (result, s3) = call_primitive
             [AS_OUTPUT dst_buffer, AS_INPUT src_buffer]
             (crypto_scalarmult_curve25519_base (AS_OUTPUT dst_buffer) (AS_INPUT src_buffer)) s2;
          s4 = stodium_release_output dst dst_buffer s3;
          s5 = stodium_release_input src src_buffer s4
      in (result, s5))"

section \<open>Vocabulary of the properties\<close>

text \<open>
  The calls of the repository's own layer in a log: the resolver, the two release
  functions and the primitive. The JNI calls made inside them are the other entries.
\<close>

fun is_api :: "call \<Rightarrow> bool" where
  "is_api (Call_stodium_get_buffer h v) = True"
| "is_api (Call_stodium_release_output h v) = True"
| "is_api (Call_stodium_release_input h v) = True"
| "is_api (Call_primitive args r) = True"
| "is_api c = False"

definition api_calls :: "call list \<Rightarrow> call list" where
  "api_calls cs = filter is_api cs"

text \<open>The calls logged between a state \<open>s\<close> and a later state \<open>s'\<close>.\<close>

definition new_calls :: "jvm \<Rightarrow> jvm \<Rightarrow> call list" where
  "new_calls s s' = drop (length (calls s)) (calls s')"

text \<open>The handles resolved in a log, each with the descriptor it got, in order.\<close>

fun resolved :: "call list \<Rightarrow> (jobject \<times> stodium_buffer) list" where
  "resolved [] = []"
| "resolved (Call_stodium_get_buffer h v # cs) = (h, v) # resolved cs"
| "resolved (c # cs) = resolved cs"

text \<open>The handles released in a log (as output or as input), each with its descriptor.\<close>

fun released :: "call list \<Rightarrow> (jobject \<times> stodium_buffer) list" where
  "released [] = []"
| "released (Call_stodium_release_output h v # cs) = (h, v) # released cs"
| "released (Call_stodium_release_input h v # cs) = (h, v) # released cs"
| "released (c # cs) = released cs"

datatype role = As_output | As_input

text \<open>The releases of a log in order, each with the role it released its handle in.\<close>

fun release_order :: "call list \<Rightarrow> (role \<times> jobject) list" where
  "release_order [] = []"
| "release_order (Call_stodium_release_output h v # cs) = (As_output, h) # release_order cs"
| "release_order (Call_stodium_release_input h v # cs) = (As_input, h) # release_order cs"
| "release_order (c # cs) = release_order cs"

text \<open>No release as output comes after a release as input.\<close>

fun outputs_before_inputs :: "(role \<times> jobject) list \<Rightarrow> bool" where
  "outputs_before_inputs [] = True"
| "outputs_before_inputs ((As_output, h) # rs) = outputs_before_inputs rs"
| "outputs_before_inputs ((As_input, h) # rs) =
     (As_output \<notin> fst ` set rs \<and> outputs_before_inputs rs)"

text \<open>The primitive calls of a log: pointer arguments and returned status.\<close>

fun primitive_calls :: "call list \<Rightarrow> (addr list \<times> jint) list" where
  "primitive_calls [] = []"
| "primitive_calls (Call_primitive args r # cs) = (args, r) # primitive_calls cs"
| "primitive_calls (c # cs) = primitive_calls cs"

text \<open>
  The element copy a descriptor holds: none for a direct descriptor or a null base
  pointer, else the copy at \<open>content\<close> of the array \<open>backing_array\<close>.
\<close>

definition pin_of :: "stodium_buffer \<Rightarrow> (jbyteArray \<times> addr) multiset" where
  "pin_of v = (if is_direct v \<or> content v = 0 then {#} else {#(backing_array v, content v)#})"

text \<open>The runtime never hands out a copy at the null address.\<close>

definition no_null_pin :: "jvm \<Rightarrow> bool" where
  "no_null_pin s = (\<forall>x\<in>#pins s. snd x \<noteq> 0)"

text \<open>
  A Java method the resolver calls on a non-direct buffer \<open>h\<close> throws: \<^verbatim>\<open>array()\<close>
  (no accessible backing array), \<^verbatim>\<open>arrayOffset()\<close> or \<^verbatim>\<open>remaining()\<close>.
\<close>

definition method_throws :: "jvm \<Rightarrow> jobject \<Rightarrow> bool" where
  "method_throws s h =
     (h \<noteq> 0 \<and> direct_address s h = 0 \<and>
      (object_method s stodium_g_byte_buffer_method_array h = None \<or>
       int_method s stodium_g_byte_buffer_method_array_offset h = None \<or>
       int_method s stodium_g_byte_buffer_method_remaining h = None))"

text \<open>
  The \<^verbatim>\<open>ReleaseByteArrayElements\<close> calls of a log: array, element pointer and mode.
\<close>

fun jni_releases :: "call list \<Rightarrow> (jbyteArray \<times> addr \<times> jint) list" where
  "jni_releases [] = []"
| "jni_releases (Call_ReleaseByteArrayElements a p m # cs) = (a, p, m) # jni_releases cs"
| "jni_releases (c # cs) = jni_releases cs"

text \<open>
  The JNI release \<open>stodium_release_output\<close> makes for a descriptor (mode \<open>0\<close>: commit and
  free), and the one \<open>stodium_release_input\<close> makes (\<^verbatim>\<open>JNI_ABORT\<close>: free, nothing for a
  null base pointer).
\<close>

definition commit_call :: "stodium_buffer \<Rightarrow> (jbyteArray \<times> addr \<times> jint) list" where
  "commit_call v = (if is_direct v then [] else [(backing_array v, content v, 0)])"

definition discard_call :: "stodium_buffer \<Rightarrow> (jbyteArray \<times> addr \<times> jint) list" where
  "discard_call v =
     (if is_direct v \<or> content v = 0 then [] else [(backing_array v, content v, JNI_ABORT)])"

text \<open>The arrays whose elements a log asks for, by \<^verbatim>\<open>GetByteArrayElements\<close>.\<close>

fun pin_requests :: "call list \<Rightarrow> jbyteArray list" where
  "pin_requests [] = []"
| "pin_requests (Call_GetByteArrayElements a # cs) = a # pin_requests cs"
| "pin_requests (c # cs) = pin_requests cs"

text \<open>
  The array the resolver asks the elements of, for a handle: none for \<^verbatim>\<open>NULL\<close> or a
  direct buffer, else what \<^verbatim>\<open>array()\<close> returned (\<^verbatim>\<open>NULL\<close> when it threw).
\<close>

definition pin_request :: "jvm \<Rightarrow> jobject \<Rightarrow> jbyteArray list" where
  "pin_request s h =
     (if h = 0 \<or> direct_address s h \<noteq> 0 then []
      else [case object_method s stodium_g_byte_buffer_method_array h of
              Some a \<Rightarrow> a | None \<Rightarrow> 0])"

text \<open>
  The resolution of a handle stays within the JNI specification: for a buffer that is
  not direct, \<^verbatim>\<open>array()\<close> returns a live array and neither \<^verbatim>\<open>arrayOffset()\<close> nor
  \<^verbatim>\<open>remaining()\<close> throws, so that the resolver makes no JNI call on a \<^verbatim>\<open>NULL\<close> reference
  and none with an exception pending. (Whether the copy of the elements can be made is
  left open: \<^verbatim>\<open>GetByteArrayElements\<close> may return \<^verbatim>\<open>NULL\<close>.)
\<close>

definition resolution_defined :: "jvm \<Rightarrow> jobject \<Rightarrow> bool" where
  "resolution_defined s h =
     (h = 0 \<or> direct_address s h \<noteq> 0 \<or>
      ((case object_method s stodium_g_byte_buffer_method_array h of
          None \<Rightarrow> False
        | Some a \<Rightarrow> a \<noteq> 0 \<and> heap s a \<noteq> None) \<and>
       int_method s stodium_g_byte_buffer_method_array_offset h \<noteq> None \<and>
       int_method s stodium_g_byte_buffer_method_remaining h \<noteq> None))"

subsection \<open>A concrete runtime\<close>

text \<open>
  Object 4 is a direct buffer of 32 bytes at address \<open>0x1000\<close>. Object 2 is a heap buffer
  over the array 7 (four bytes), its window starting at offset 1 with 2 bytes remaining.
  Object 3 is a buffer with no accessible array: \<^verbatim>\<open>array()\<close> and \<^verbatim>\<open>arrayOffset()\<close>
  throw. Element copies are placed at \<open>0x2000\<close>, \<open>0x2100\<close>, ...
\<close>

definition example_jvm :: jvm where
  "example_jvm =
     \<lparr>direct_address = (\<lambda>b. if b = 4 then 0x1000 else 0),
      direct_capacity = (\<lambda>b. if b = 4 then 32 else - 1),
      object_method =
        (\<lambda>m b. if m = stodium_g_byte_buffer_method_array \<and> b = 2 then Some 7 else None),
      int_method = (\<lambda>m b.
         if b = 2 \<and> m = stodium_g_byte_buffer_method_array_offset then Some 1
         else if b = 2 \<and> m = stodium_g_byte_buffer_method_remaining then Some 2
         else if b = 3 \<and> m = stodium_g_byte_buffer_method_remaining then Some 16
         else None),
      copy_address = (\<lambda>n. 0x2000 + 0x100 * of_nat n),
      copies_made = 0,
      heap = (\<lambda>a. if a = 7 then Some [10, 11, 12, 13] else None),
      memory = (\<lambda>a. 0),
      pins = {#},
      exception_pending = False,
      calls = []\<rparr>"

text \<open>The same runtime with no room for any element copy.\<close>

definition example_jvm_no_room :: jvm where
  "example_jvm_no_room = example_jvm\<lparr>copy_address := (\<lambda>n. 0)\<rparr>"

text \<open>Some contents of an uninitialised local descriptor.\<close>

definition example_locals :: stodium_buffer where
  "example_locals =
     \<lparr>content = 0xDEAD, offset = 5, capacity = 6, is_direct = False, backing_array = 9\<rparr>"

text \<open>Primitives that write one byte through their output pointer and report failure.\<close>

definition failing_primitive2 :: "addr \<Rightarrow> addr \<Rightarrow> (addr \<Rightarrow> byte) \<Rightarrow> jint \<times> (addr \<Rightarrow> byte)" where
  "failing_primitive2 out inp m = (- 1, m(out := 99))"

definition failing_primitive3 ::
  "addr \<Rightarrow> addr \<Rightarrow> addr \<Rightarrow> (addr \<Rightarrow> byte) \<Rightarrow> jint \<times> (addr \<Rightarrow> byte)" where
  "failing_primitive3 out inp1 inp2 m = (- 1, m(out := 99))"

definition failing_primitive4 ::
  "addr \<Rightarrow> addr \<Rightarrow> addr \<Rightarrow> addr \<Rightarrow> (addr \<Rightarrow> byte) \<Rightarrow> jint \<times> (addr \<Rightarrow> byte)" where
  "failing_primitive4 out inp1 inp2 inp3 m = (- 1, m(out := 99))"

section \<open>Library initialisation: the two entry points\<close>

text \<open>
  C9. Initialisation is idempotent as far as the external library is: when the external
  \<^verbatim>\<open>sodium_init()\<close> does not fail on the first call nor on the second (its own
  idempotency guarantee), two calls of \<open>stodium_1init\<close> in sequence both return
  \<open>0\<close>. The second call is the external function run on the state the first left, and
  the library is left in the state the external function produced.
\<close>

theorem stodium_1init_twice:
  "fst (sodium_init l) \<noteq> - 1 \<Longrightarrow>
   fst (sodium_init (snd (sodium_init l))) \<noteq> - 1 \<Longrightarrow>
   fst (stodium_1init sodium_init l) = 0 \<and>
   snd (stodium_1init sodium_init l) = snd (sodium_init l) \<and>
   fst (stodium_1init sodium_init (snd (stodium_1init sodium_init l))) = 0 \<and>
   snd (stodium_1init sodium_init (snd (stodium_1init sodium_init l))) =
     snd (sodium_init (snd (sodium_init l)))"
  by (simp add: stodium_1init_def split_def)

theorem stodium_1init_twice_witness:
  "fst (libsodium_init False) \<noteq> - 1 \<and>
   fst (libsodium_init (snd (libsodium_init False))) \<noteq> - 1 \<and>
   fst (stodium_1init libsodium_init False) = 0 \<and>
   fst (stodium_1init libsodium_init (snd (stodium_1init libsodium_init False))) = 0 \<and>
   snd (stodium_1init libsodium_init (snd (stodium_1init libsodium_init False))) = True"
  using stodium_1init_twice [of libsodium_init False]
  by (simp add: libsodium_init_def stodium_1init_def)

text \<open>
  C10. The two entry points treat the external status differently. \<open>stodium_1init\<close>
  returns \<open>-1\<close> exactly when the external \<^verbatim>\<open>sodium_init()\<close> returns \<open>-1\<close> and \<open>0\<close> for
  every other status; \<open>sodium_1init\<close> returns the external status unchanged. They agree
  exactly on the statuses \<open>-1\<close> and \<open>0\<close>. On the second call of a sequence, where
  libsodium answers \<open>1\<close> (already initialised), the first returns \<open>0\<close> and the second
  returns \<open>1\<close>.
\<close>

theorem init_entry_points_differ:
  "fst (stodium_1init sodium_init l) = (if fst (sodium_init l) = - 1 then - 1 else 0) \<and>
   snd (stodium_1init sodium_init l) = snd (sodium_init l) \<and>
   sodium_1init sodium_init l = sodium_init l \<and>
   (fst (stodium_1init sodium_init l) = fst (sodium_1init sodium_init l)) =
     (fst (sodium_init l) = - 1 \<or> fst (sodium_init l) = 0) \<and>
   fst (stodium_1init libsodium_init (snd (stodium_1init libsodium_init False))) = 0 \<and>
   fst (sodium_1init libsodium_init (snd (sodium_1init libsodium_init False))) = 1"
  by (auto simp add: stodium_1init_def sodium_1init_def libsodium_init_def split_def)

theorem init_entry_points_differ_witness:
  "fst (stodium_1init libsodium_init True) = 0 \<and>
   fst (sodium_1init libsodium_init True) = 1 \<and>
   fst (stodium_1init (\<lambda>l::unit. (- 1, l)) ()) = - 1 \<and>
   fst (sodium_1init (\<lambda>l::unit. (- 1, l)) ()) = - 1"
  using init_entry_points_differ [of libsodium_init True]
    init_entry_points_differ [of "\<lambda>l::unit. (- 1, l)" "()"]
  by (simp add: libsodium_init_def)

section \<open>The call log\<close>

lemma api_calls_append [simp]: "api_calls (xs @ ys) = api_calls xs @ api_calls ys"
  by (simp add: api_calls_def)

lemma api_calls_simps [simp]:
  "api_calls [] = []"
  "api_calls (c # cs) = (if is_api c then c # api_calls cs else api_calls cs)"
  by (simp_all add: api_calls_def)

lemma calls_record_call [simp]: "calls (record_call c s) = calls s @ [c]"
  by (simp add: record_call_def)

lemma calls_GetDirectBufferAddress:
  "calls (snd (GetDirectBufferAddress b s)) = calls s @ [Call_GetDirectBufferAddress b]"
  by (simp add: GetDirectBufferAddress_def)

lemma calls_GetDirectBufferCapacity:
  "calls (snd (GetDirectBufferCapacity b s)) = calls s @ [Call_GetDirectBufferCapacity b]"
  by (simp add: GetDirectBufferCapacity_def)

lemma calls_CallObjectMethod:
  "calls (snd (CallObjectMethod b m s)) = calls s @ [Call_CallObjectMethod b m]"
  by (simp add: CallObjectMethod_def Let_def split: option.split)

lemma calls_CallIntMethod:
  "calls (snd (CallIntMethod b m s)) = calls s @ [Call_CallIntMethod b m]"
  by (simp add: CallIntMethod_def Let_def split: option.split)

lemma calls_GetByteArrayElements:
  "calls (snd (GetByteArrayElements a s)) = calls s @ [Call_GetByteArrayElements a]"
  by (simp add: GetByteArrayElements_def Let_def split: option.split)

lemma calls_ReleaseByteArrayElements:
  "calls (ReleaseByteArrayElements a p m s) = calls s @ [Call_ReleaseByteArrayElements a p m]"
  by (simp add: ReleaseByteArrayElements_def Let_def split: option.split)

lemmas jni_calls = calls_GetDirectBufferAddress calls_GetDirectBufferCapacity
  calls_CallObjectMethod calls_CallIntMethod calls_GetByteArrayElements
  calls_ReleaseByteArrayElements

lemma calls_stodium_get_buffer:
  "\<exists>js. calls (snd (stodium_get_buffer d h s)) =
      calls s @ js @ [Call_stodium_get_buffer h (fst (stodium_get_buffer d h s))] \<and>
      api_calls js = []"
  by (simp add: stodium_get_buffer_def Let_def split_def jni_calls)

lemma calls_stodium_release_output:
  "\<exists>js. calls (stodium_release_output h v s) =
      calls s @ Call_stodium_release_output h v # js \<and> api_calls js = []"
  by (simp add: stodium_release_output_def Let_def jni_calls)

lemma calls_stodium_release_input:
  "\<exists>js. calls (stodium_release_input h v s) =
      calls s @ Call_stodium_release_input h v # js \<and> api_calls js = []"
  by (simp add: stodium_release_input_def Let_def jni_calls)

lemma calls_call_primitive:
  "calls (snd (call_primitive args f s)) = calls s @ [Call_primitive args (fst (f (memory s)))]"
  by (simp add: call_primitive_def split_def Let_def)

lemma fst_call_primitive: "fst (call_primitive args f s) = fst (f (memory s))"
  by (simp add: call_primitive_def split_def Let_def)

lemma api_stodium_get_buffer:
  "api_calls (calls (snd (stodium_get_buffer d h s))) =
     api_calls (calls s) @ [Call_stodium_get_buffer h (fst (stodium_get_buffer d h s))]"
  using calls_stodium_get_buffer [of d h s] by auto

lemma api_stodium_release_output:
  "api_calls (calls (stodium_release_output h v s)) =
     api_calls (calls s) @ [Call_stodium_release_output h v]"
  using calls_stodium_release_output [of h v s] by auto

lemma api_stodium_release_input:
  "api_calls (calls (stodium_release_input h v s)) =
     api_calls (calls s) @ [Call_stodium_release_input h v]"
  using calls_stodium_release_input [of h v s] by auto

lemma api_call_primitive:
  "api_calls (calls (snd (call_primitive args f s))) =
     api_calls (calls s) @ [Call_primitive args (fst (f (memory s)))]"
  by (simp add: calls_call_primitive)

lemma prefix_stodium_get_buffer:
  "prefix xs (calls s) \<Longrightarrow> prefix xs (calls (snd (stodium_get_buffer d h s)))"
  using calls_stodium_get_buffer [of d h s] by (auto simp: prefix_def)

lemma prefix_stodium_release_output:
  "prefix xs (calls s) \<Longrightarrow> prefix xs (calls (stodium_release_output h v s))"
  using calls_stodium_release_output [of h v s] by (auto simp: prefix_def)

lemma prefix_stodium_release_input:
  "prefix xs (calls s) \<Longrightarrow> prefix xs (calls (stodium_release_input h v s))"
  using calls_stodium_release_input [of h v s] by (auto simp: prefix_def)

lemma prefix_call_primitive:
  "prefix xs (calls s) \<Longrightarrow> prefix xs (calls (snd (call_primitive args f s)))"
  by (auto simp: prefix_def calls_call_primitive)

lemmas api_steps = api_stodium_get_buffer api_stodium_release_output
  api_stodium_release_input api_call_primitive

lemmas prefix_steps = prefix_stodium_get_buffer prefix_stodium_release_output
  prefix_stodium_release_input prefix_call_primitive

lemma api_new_calls:
  assumes "prefix (calls s) (calls s')"
  shows "api_calls (new_calls s s') = drop (length (api_calls (calls s))) (api_calls (calls s'))"
proof -
  from assms obtain zs where zs: "calls s' = calls s @ zs"
    by (auto simp: prefix_def)
  then show ?thesis by (simp add: new_calls_def)
qed

lemma resolved_api: "resolved (api_calls cs) = resolved cs"
  by (induction cs rule: resolved.induct) simp_all

lemma released_api: "released (api_calls cs) = released cs"
  by (induction cs rule: released.induct) simp_all

lemma release_order_api: "release_order (api_calls cs) = release_order cs"
  by (induction cs rule: release_order.induct) simp_all

lemma primitive_calls_api: "primitive_calls (api_calls cs) = primitive_calls cs"
  by (induction cs rule: primitive_calls.induct) simp_all

lemma resolved_via_api: "api_calls cs = L \<Longrightarrow> resolved cs = resolved L"
  using resolved_api [of cs] by simp

lemma released_via_api: "api_calls cs = L \<Longrightarrow> released cs = released L"
  using released_api [of cs] by simp

lemma release_order_via_api: "api_calls cs = L \<Longrightarrow> release_order cs = release_order L"
  using release_order_api [of cs] by simp

lemma primitive_calls_via_api: "api_calls cs = L \<Longrightarrow> primitive_calls cs = primitive_calls L"
  using primitive_calls_api [of cs] by simp

text \<open>What \<open>outputs_before_inputs\<close> says, by positions.\<close>

lemma outputs_before_inputs_Cons:
  "outputs_before_inputs (r # rs) =
     ((fst r = As_input \<longrightarrow> As_output \<notin> fst ` set rs) \<and> outputs_before_inputs rs)"
  by (cases r; cases "fst r") auto

lemma outputs_before_inputs_iff:
  "outputs_before_inputs rs \<longleftrightarrow>
     (\<forall>i j. i < j \<and> j < length rs \<and> fst (rs ! i) = As_input \<longrightarrow> fst (rs ! j) \<noteq> As_output)"
proof (induction rs)
  case Nil
  then show ?case by simp
next
  case (Cons r rs)
  have a: "(As_output \<notin> fst ` set rs) = (\<forall>j<length rs. fst (rs ! j) \<noteq> As_output)"
  proof
    assume l: "As_output \<notin> fst ` set rs"
    show "\<forall>j<length rs. fst (rs ! j) \<noteq> As_output"
    proof (intro allI impI notI)
      fix j assume "j < length rs" and "fst (rs ! j) = As_output"
      then have "As_output \<in> fst ` set rs"
        by (metis image_eqI nth_mem)
      with l show False by simp
    qed
  next
    assume r: "\<forall>j<length rs. fst (rs ! j) \<noteq> As_output"
    show "As_output \<notin> fst ` set rs"
    proof
      assume "As_output \<in> fst ` set rs"
      then obtain x where "x \<in> set rs" and "fst x = As_output" by auto
      then obtain j where "j < length rs" and "rs ! j = x"
        by (auto simp add: in_set_conv_nth)
      with r \<open>fst x = As_output\<close> show False by auto
    qed
  qed
  show ?case
    unfolding outputs_before_inputs_Cons Cons.IH a
    apply (rule iffI)
     apply (intro allI impI)
    subgoal for i j by (cases i; cases j) auto
    apply (intro conjI impI allI)
    subgoal for j by (erule allE [of _ 0], erule allE [of _ "Suc j"]) simp
    subgoal for i j by (erule allE [of _ "Suc i"], erule allE [of _ "Suc j"]) simp
    done
qed

subsection \<open>The calls of one invocation\<close>

lemma hsalsa20_prefix:
  "prefix (calls s)
     (calls (snd (crypto_1core_1hsalsa20 prim ld ls lk lc dst src key constant s)))"
  by (simp add: crypto_1core_1hsalsa20_def split_def Let_def prefix_steps)

lemma hsalsa20_api:
  "(case stodium_get_buffer ld dst s of (vd, sd) \<Rightarrow>
    case stodium_get_buffer ls src sd of (vs, ss) \<Rightarrow>
    case stodium_get_buffer lk key ss of (vk, sk) \<Rightarrow>
    case stodium_get_buffer lc constant sk of (vc, sc) \<Rightarrow>
      fst (crypto_1core_1hsalsa20 prim ld ls lk lc dst src key constant s) =
        fst (prim (AS_OUTPUT vd) (AS_INPUT vs) (AS_INPUT vk) (AS_INPUT vc) (memory sc)) \<and>
      api_calls (calls (snd (crypto_1core_1hsalsa20 prim ld ls lk lc dst src key constant s))) =
        api_calls (calls s) @
        [Call_stodium_get_buffer dst vd, Call_stodium_get_buffer src vs,
         Call_stodium_get_buffer key vk, Call_stodium_get_buffer constant vc,
         Call_primitive [AS_OUTPUT vd, AS_INPUT vs, AS_INPUT vk, AS_INPUT vc]
           (fst (prim (AS_OUTPUT vd) (AS_INPUT vs) (AS_INPUT vk) (AS_INPUT vc) (memory sc))),
         Call_stodium_release_output dst vd, Call_stodium_release_input src vs,
         Call_stodium_release_input key vk, Call_stodium_release_input constant vc])"
  by (simp add: crypto_1core_1hsalsa20_def split_def Let_def api_steps fst_call_primitive)

lemma hsalsa20_new_api:
  "(case stodium_get_buffer ld dst s of (vd, sd) \<Rightarrow>
    case stodium_get_buffer ls src sd of (vs, ss) \<Rightarrow>
    case stodium_get_buffer lk key ss of (vk, sk) \<Rightarrow>
    case stodium_get_buffer lc constant sk of (vc, sc) \<Rightarrow>
      api_calls (new_calls s
          (snd (crypto_1core_1hsalsa20 prim ld ls lk lc dst src key constant s))) =
        [Call_stodium_get_buffer dst vd, Call_stodium_get_buffer src vs,
         Call_stodium_get_buffer key vk, Call_stodium_get_buffer constant vc,
         Call_primitive [AS_OUTPUT vd, AS_INPUT vs, AS_INPUT vk, AS_INPUT vc]
           (fst (prim (AS_OUTPUT vd) (AS_INPUT vs) (AS_INPUT vk) (AS_INPUT vc) (memory sc))),
         Call_stodium_release_output dst vd, Call_stodium_release_input src vs,
         Call_stodium_release_input key vk, Call_stodium_release_input constant vc])"
  by (simp add: split_def api_new_calls [OF hsalsa20_prefix] hsalsa20_api [unfolded split_def])

lemma scalarmult_prefix:
  "prefix (calls s)
     (calls (snd (crypto_1scalarmult_1curve25519 prim ld ls lk dst priv pub s)))"
  by (simp add: crypto_1scalarmult_1curve25519_def split_def Let_def prefix_steps)

lemma scalarmult_api:
  "(case stodium_get_buffer ld dst s of (vd, sd) \<Rightarrow>
    case stodium_get_buffer ls priv sd of (vs, ss) \<Rightarrow>
    case stodium_get_buffer lk pub ss of (vk, sk) \<Rightarrow>
      fst (crypto_1scalarmult_1curve25519 prim ld ls lk dst priv pub s) =
        fst (prim (AS_OUTPUT vd) (AS_INPUT vs) (AS_INPUT vk) (memory sk)) \<and>
      api_calls (calls (snd (crypto_1scalarmult_1curve25519 prim ld ls lk dst priv pub s))) =
        api_calls (calls s) @
        [Call_stodium_get_buffer dst vd, Call_stodium_get_buffer priv vs,
         Call_stodium_get_buffer pub vk,
         Call_primitive [AS_OUTPUT vd, AS_INPUT vs, AS_INPUT vk]
           (fst (prim (AS_OUTPUT vd) (AS_INPUT vs) (AS_INPUT vk) (memory sk))),
         Call_stodium_release_output dst vd, Call_stodium_release_input priv vs,
         Call_stodium_release_input pub vk])"
  by (simp add: crypto_1scalarmult_1curve25519_def split_def Let_def api_steps fst_call_primitive)

lemma scalarmult_new_api:
  "(case stodium_get_buffer ld dst s of (vd, sd) \<Rightarrow>
    case stodium_get_buffer ls priv sd of (vs, ss) \<Rightarrow>
    case stodium_get_buffer lk pub ss of (vk, sk) \<Rightarrow>
      api_calls (new_calls s
          (snd (crypto_1scalarmult_1curve25519 prim ld ls lk dst priv pub s))) =
        [Call_stodium_get_buffer dst vd, Call_stodium_get_buffer priv vs,
         Call_stodium_get_buffer pub vk,
         Call_primitive [AS_OUTPUT vd, AS_INPUT vs, AS_INPUT vk]
           (fst (prim (AS_OUTPUT vd) (AS_INPUT vs) (AS_INPUT vk) (memory sk))),
         Call_stodium_release_output dst vd, Call_stodium_release_input priv vs,
         Call_stodium_release_input pub vk])"
  by (simp add: split_def api_new_calls [OF scalarmult_prefix] scalarmult_api [unfolded split_def])

lemma base_prefix:
  "prefix (calls s)
     (calls (snd (crypto_1scalarmult_1curve25519_1base prim ld ls dst src s)))"
  by (simp add: crypto_1scalarmult_1curve25519_1base_def split_def Let_def prefix_steps)

lemma base_api:
  "(case stodium_get_buffer ld dst s of (vd, sd) \<Rightarrow>
    case stodium_get_buffer ls src sd of (vs, ss) \<Rightarrow>
      fst (crypto_1scalarmult_1curve25519_1base prim ld ls dst src s) =
        fst (prim (AS_OUTPUT vd) (AS_INPUT vs) (memory ss)) \<and>
      api_calls (calls (snd (crypto_1scalarmult_1curve25519_1base prim ld ls dst src s))) =
        api_calls (calls s) @
        [Call_stodium_get_buffer dst vd, Call_stodium_get_buffer src vs,
         Call_primitive [AS_OUTPUT vd, AS_INPUT vs]
           (fst (prim (AS_OUTPUT vd) (AS_INPUT vs) (memory ss))),
         Call_stodium_release_output dst vd, Call_stodium_release_input src vs])"
  by (simp add: crypto_1scalarmult_1curve25519_1base_def split_def Let_def api_steps
      fst_call_primitive)

lemma base_new_api:
  "(case stodium_get_buffer ld dst s of (vd, sd) \<Rightarrow>
    case stodium_get_buffer ls src sd of (vs, ss) \<Rightarrow>
      api_calls (new_calls s
          (snd (crypto_1scalarmult_1curve25519_1base prim ld ls dst src s))) =
        [Call_stodium_get_buffer dst vd, Call_stodium_get_buffer src vs,
         Call_primitive [AS_OUTPUT vd, AS_INPUT vs]
           (fst (prim (AS_OUTPUT vd) (AS_INPUT vs) (memory ss))),
         Call_stodium_release_output dst vd, Call_stodium_release_input src vs])"
  by (simp add: split_def api_new_calls [OF base_prefix] base_api [unfolded split_def])

section \<open>What each call changes\<close>

lemma record_call_fields [simp]:
  "pins (record_call c s) = pins s"
  "heap (record_call c s) = heap s"
  "memory (record_call c s) = memory s"
  "exception_pending (record_call c s) = exception_pending s"
  "copies_made (record_call c s) = copies_made s"
  "copy_address (record_call c s) = copy_address s"
  "direct_address (record_call c s) = direct_address s"
  "direct_capacity (record_call c s) = direct_capacity s"
  "object_method (record_call c s) = object_method s"
  "int_method (record_call c s) = int_method s"
  by (simp_all add: record_call_def)

subsection \<open>Element copies\<close>

lemma pins_GetDirectBufferAddress: "pins (snd (GetDirectBufferAddress b s)) = pins s"
  by (simp add: GetDirectBufferAddress_def)

lemma pins_GetDirectBufferCapacity: "pins (snd (GetDirectBufferCapacity b s)) = pins s"
  by (simp add: GetDirectBufferCapacity_def)

lemma pins_CallObjectMethod: "pins (snd (CallObjectMethod b m s)) = pins s"
  by (simp add: CallObjectMethod_def Let_def split: option.split)

lemma pins_CallIntMethod: "pins (snd (CallIntMethod b m s)) = pins s"
  by (simp add: CallIntMethod_def Let_def split: option.split)

lemma pins_GetByteArrayElements:
  "pins (snd (GetByteArrayElements a s)) =
     pins s + (if fst (GetByteArrayElements a s) = 0 then {#}
               else {#(a, fst (GetByteArrayElements a s))#})"
  by (simp add: GetByteArrayElements_def Let_def split: option.split)

lemma pins_ReleaseByteArrayElements:
  "pins (ReleaseByteArrayElements a p m s) =
     (if m = 0 \<or> m = JNI_ABORT then pins s - {#(a, p)#} else pins s)"
  by (simp add: ReleaseByteArrayElements_def Let_def split: option.split)

lemma pins_stodium_get_buffer:
  "pins (snd (stodium_get_buffer d h s)) = pins s + pin_of (fst (stodium_get_buffer d h s))"
  by (simp add: stodium_get_buffer_def pin_of_def Let_def split_def
      pins_GetByteArrayElements pins_CallObjectMethod pins_CallIntMethod
      pins_GetDirectBufferAddress pins_GetDirectBufferCapacity)

lemma pins_stodium_release_input:
  "pins (stodium_release_input h v s) = pins s - pin_of v"
  by (simp add: stodium_release_input_def pins_ReleaseByteArrayElements pin_of_def Let_def)

lemma pins_stodium_release_output:
  assumes "no_null_pin s"
  shows "pins (stodium_release_output h v s) = pins s - pin_of v"
proof (cases "is_direct v \<or> content v \<noteq> 0")
  case True
  then show ?thesis
    by (auto simp add: stodium_release_output_def pins_ReleaseByteArrayElements pin_of_def Let_def)
next
  case False
  then have "(backing_array v, content v) \<notin># pins s"
    using assms by (auto simp add: no_null_pin_def)
  then have "pins s - {#(backing_array v, content v)#} = pins s"
    by simp
  with False show ?thesis
    by (simp add: stodium_release_output_def pins_ReleaseByteArrayElements pin_of_def Let_def)
qed

lemma pins_call_primitive: "pins (snd (call_primitive args f s)) = pins s"
  by (simp add: call_primitive_def split_def Let_def)

lemma no_null_pin_stodium_get_buffer:
  "no_null_pin s \<Longrightarrow> no_null_pin (snd (stodium_get_buffer d h s))"
  by (auto simp add: no_null_pin_def pins_stodium_get_buffer pin_of_def)

lemma no_null_pin_call_primitive:
  "no_null_pin s \<Longrightarrow> no_null_pin (snd (call_primitive args f s))"
  by (simp add: no_null_pin_def pins_call_primitive)

lemma hsalsa20_pins:
  assumes "no_null_pin s"
  shows "pins (snd (crypto_1core_1hsalsa20 prim ld ls lk lc dst src key constant s)) = pins s"
proof -
  obtain vd sd where gd: "stodium_get_buffer ld dst s = (vd, sd)" by force
  obtain vs ss where gs: "stodium_get_buffer ls src sd = (vs, ss)" by force
  obtain vk sk where gk: "stodium_get_buffer lk key ss = (vk, sk)" by force
  obtain vc sc where gc: "stodium_get_buffer lc constant sk = (vc, sc)" by force
  define sp where "sp = snd (call_primitive
      [AS_OUTPUT vd, AS_INPUT vs, AS_INPUT vk, AS_INPUT vc]
      (prim (AS_OUTPUT vd) (AS_INPUT vs) (AS_INPUT vk) (AS_INPUT vc)) sc)"
  have pd: "pins sd = pins s + pin_of vd" and nd: "no_null_pin sd"
    using pins_stodium_get_buffer [of ld dst s]
      no_null_pin_stodium_get_buffer [OF assms, of ld dst]
    by (simp_all add: gd)
  have ps: "pins ss = pins sd + pin_of vs" and ns: "no_null_pin ss"
    using pins_stodium_get_buffer [of ls src sd]
      no_null_pin_stodium_get_buffer [OF nd, of ls src]
    by (simp_all add: gs)
  have pk: "pins sk = pins ss + pin_of vk" and nk: "no_null_pin sk"
    using pins_stodium_get_buffer [of lk key ss]
      no_null_pin_stodium_get_buffer [OF ns, of lk key]
    by (simp_all add: gk)
  have pc: "pins sc = pins sk + pin_of vc" and nc: "no_null_pin sc"
    using pins_stodium_get_buffer [of lc "constant" sk]
      no_null_pin_stodium_get_buffer [OF nk, of lc "constant"]
    by (simp_all add: gc)
  have pp: "pins sp = pins sc" and np: "no_null_pin sp"
    using no_null_pin_call_primitive [OF nc] by (simp_all add: sp_def pins_call_primitive)
  have run: "snd (crypto_1core_1hsalsa20 prim ld ls lk lc dst src key constant s) =
      stodium_release_input constant vc (stodium_release_input key vk
        (stodium_release_input src vs (stodium_release_output dst vd sp)))"
    by (simp add: crypto_1core_1hsalsa20_def gd gs gk gc sp_def Let_def split_def)
  show ?thesis
    unfolding run pins_stodium_release_input pins_stodium_release_output [OF np] pp pc pk ps pd
    by (simp add: multiset_eq_iff)
qed

lemma scalarmult_pins:
  assumes "no_null_pin s"
  shows "pins (snd (crypto_1scalarmult_1curve25519 prim ld ls lk dst priv pub s)) = pins s"
proof -
  obtain vd sd where gd: "stodium_get_buffer ld dst s = (vd, sd)" by force
  obtain vs ss where gs: "stodium_get_buffer ls priv sd = (vs, ss)" by force
  obtain vk sk where gk: "stodium_get_buffer lk pub ss = (vk, sk)" by force
  define sp where "sp = snd (call_primitive
      [AS_OUTPUT vd, AS_INPUT vs, AS_INPUT vk]
      (prim (AS_OUTPUT vd) (AS_INPUT vs) (AS_INPUT vk)) sk)"
  have pd: "pins sd = pins s + pin_of vd" and nd: "no_null_pin sd"
    using pins_stodium_get_buffer [of ld dst s]
      no_null_pin_stodium_get_buffer [OF assms, of ld dst]
    by (simp_all add: gd)
  have ps: "pins ss = pins sd + pin_of vs" and ns: "no_null_pin ss"
    using pins_stodium_get_buffer [of ls priv sd]
      no_null_pin_stodium_get_buffer [OF nd, of ls priv]
    by (simp_all add: gs)
  have pk: "pins sk = pins ss + pin_of vk" and nk: "no_null_pin sk"
    using pins_stodium_get_buffer [of lk pub ss]
      no_null_pin_stodium_get_buffer [OF ns, of lk pub]
    by (simp_all add: gk)
  have pp: "pins sp = pins sk" and np: "no_null_pin sp"
    using no_null_pin_call_primitive [OF nk] by (simp_all add: sp_def pins_call_primitive)
  have run: "snd (crypto_1scalarmult_1curve25519 prim ld ls lk dst priv pub s) =
      stodium_release_input pub vk
        (stodium_release_input priv vs (stodium_release_output dst vd sp))"
    by (simp add: crypto_1scalarmult_1curve25519_def gd gs gk sp_def Let_def split_def)
  show ?thesis
    unfolding run pins_stodium_release_input pins_stodium_release_output [OF np] pp pk ps pd
    by (simp add: multiset_eq_iff)
qed

lemma base_pins:
  assumes "no_null_pin s"
  shows "pins (snd (crypto_1scalarmult_1curve25519_1base prim ld ls dst src s)) = pins s"
proof -
  obtain vd sd where gd: "stodium_get_buffer ld dst s = (vd, sd)" by force
  obtain vs ss where gs: "stodium_get_buffer ls src sd = (vs, ss)" by force
  define sp where "sp = snd (call_primitive
      [AS_OUTPUT vd, AS_INPUT vs] (prim (AS_OUTPUT vd) (AS_INPUT vs)) ss)"
  have pd: "pins sd = pins s + pin_of vd" and nd: "no_null_pin sd"
    using pins_stodium_get_buffer [of ld dst s]
      no_null_pin_stodium_get_buffer [OF assms, of ld dst]
    by (simp_all add: gd)
  have ps: "pins ss = pins sd + pin_of vs" and ns: "no_null_pin ss"
    using pins_stodium_get_buffer [of ls src sd]
      no_null_pin_stodium_get_buffer [OF nd, of ls src]
    by (simp_all add: gs)
  have pp: "pins sp = pins ss" and np: "no_null_pin sp"
    using no_null_pin_call_primitive [OF ns] by (simp_all add: sp_def pins_call_primitive)
  have run: "snd (crypto_1scalarmult_1curve25519_1base prim ld ls dst src s) =
      stodium_release_input src vs (stodium_release_output dst vd sp)"
    by (simp add: crypto_1scalarmult_1curve25519_1base_def gd gs sp_def Let_def split_def)
  show ?thesis
    unfolding run pins_stodium_release_input pins_stodium_release_output [OF np] pp ps pd
    by (simp add: multiset_eq_iff)
qed

subsection \<open>Pending exceptions\<close>

lemma exception_ReleaseByteArrayElements:
  "exception_pending (ReleaseByteArrayElements a p m s) = exception_pending s"
  by (simp add: ReleaseByteArrayElements_def Let_def split: option.split)

lemma exception_stodium_release_output:
  "exception_pending (stodium_release_output h v s) = exception_pending s"
  by (simp add: stodium_release_output_def exception_ReleaseByteArrayElements Let_def)

lemma exception_stodium_release_input:
  "exception_pending (stodium_release_input h v s) = exception_pending s"
  by (simp add: stodium_release_input_def exception_ReleaseByteArrayElements Let_def)

lemma exception_call_primitive:
  "exception_pending (snd (call_primitive args f s)) = exception_pending s"
  by (simp add: call_primitive_def split_def Let_def)

lemmas exception_steps = exception_stodium_release_output exception_stodium_release_input
  exception_call_primitive

lemma hsalsa20_exception:
  "(case stodium_get_buffer ld dst s of (vd, sd) \<Rightarrow>
    case stodium_get_buffer ls src sd of (vs, ss) \<Rightarrow>
    case stodium_get_buffer lk key ss of (vk, sk) \<Rightarrow>
    case stodium_get_buffer lc constant sk of (vc, sc) \<Rightarrow>
      exception_pending (snd (crypto_1core_1hsalsa20 prim ld ls lk lc dst src key constant s)) =
        exception_pending sc)"
  by (simp add: crypto_1core_1hsalsa20_def split_def Let_def exception_steps)

lemma scalarmult_exception:
  "(case stodium_get_buffer ld dst s of (vd, sd) \<Rightarrow>
    case stodium_get_buffer ls priv sd of (vs, ss) \<Rightarrow>
    case stodium_get_buffer lk pub ss of (vk, sk) \<Rightarrow>
      exception_pending (snd (crypto_1scalarmult_1curve25519 prim ld ls lk dst priv pub s)) =
        exception_pending sk)"
  by (simp add: crypto_1scalarmult_1curve25519_def split_def Let_def exception_steps)

lemma base_exception:
  "(case stodium_get_buffer ld dst s of (vd, sd) \<Rightarrow>
    case stodium_get_buffer ls src sd of (vs, ss) \<Rightarrow>
      exception_pending (snd (crypto_1scalarmult_1curve25519_1base prim ld ls dst src s)) =
        exception_pending ss)"
  by (simp add: crypto_1scalarmult_1curve25519_1base_def split_def Let_def exception_steps)

section \<open>The resolver and the release functions, call by call\<close>

lemma uint_scast_jint: "uint (scast (x::32 word) :: 64 word) = sint x mod 2 ^ 64"
  unfolding scast_eq uint_word_of_int by simp

lemma size_t_of_jint_nonneg:
  assumes "0 \<le> sint x"
  shows "unat (size_t_of_jint x) = nat (sint x)"
proof -
  have "sint x < 2 ^ 31" using sint_lt [of x] by simp
  then have lt: "sint x < 2 ^ 64" by (rule less_le_trans) simp
  have "sint x mod 2 ^ 64 = sint x" using assms lt by (rule mod_pos_pos_trivial)
  then have "uint (scast x :: 64 word) = sint x" by (simp only: uint_scast_jint)
  then show ?thesis unfolding size_t_of_jint_def unat_eq_nat_uint by (rule arg_cong)
qed

lemma size_t_of_jlong_id: "size_t_of_jlong x = x"
  by (simp add: size_t_of_jlong_def)

lemma get_buffer_null:
  "stodium_get_buffer d 0 s =
     (d\<lparr>content := 0, offset := 0, capacity := 0, is_direct := True\<rparr>,
      record_call (Call_stodium_get_buffer 0
        (d\<lparr>content := 0, offset := 0, capacity := 0, is_direct := True\<rparr>)) s)"
  by (simp add: stodium_get_buffer_def Let_def)

lemma get_buffer_direct:
  assumes "h \<noteq> 0" and "direct_address s h \<noteq> 0"
  shows "stodium_get_buffer d h s =
     (d\<lparr>content := direct_address s h, offset := 0,
        capacity := size_t_of_jlong (direct_capacity s h), is_direct := True\<rparr>,
      s\<lparr>calls := calls s @
        [Call_GetDirectBufferAddress h, Call_GetDirectBufferCapacity h,
         Call_stodium_get_buffer h
           (d\<lparr>content := direct_address s h, offset := 0,
              capacity := size_t_of_jlong (direct_capacity s h), is_direct := True\<rparr>)]\<rparr>)"
  using assms
  by (simp add: stodium_get_buffer_def GetDirectBufferAddress_def GetDirectBufferCapacity_def
      record_call_def Let_def)

lemmas jni_defs = GetDirectBufferAddress_def GetDirectBufferCapacity_def CallObjectMethod_def
  CallIntMethod_def GetByteArrayElements_def

lemma get_buffer_pinned_shape:
  assumes "h \<noteq> 0" and "direct_address s h = 0"
  shows "is_direct (fst (stodium_get_buffer d h s)) = False"
    and "backing_array (fst (stodium_get_buffer d h s)) =
           (case object_method s stodium_g_byte_buffer_method_array h of
              Some a \<Rightarrow> a | None \<Rightarrow> 0)"
    and "offset (fst (stodium_get_buffer d h s)) = size_t_of_jint
           (case int_method s stodium_g_byte_buffer_method_array_offset h of
              Some r \<Rightarrow> r | None \<Rightarrow> 0)"
    and "capacity (fst (stodium_get_buffer d h s)) = size_t_of_jint
           (case int_method s stodium_g_byte_buffer_method_remaining h of
              Some r \<Rightarrow> r | None \<Rightarrow> 0)"
    and "heap (snd (stodium_get_buffer d h s)) = heap s"
  using assms
  by (simp_all add: stodium_get_buffer_def jni_defs Let_def split_def split: option.split)

lemma get_buffer_pinned_copy:
  assumes "h \<noteq> 0" and "direct_address s h = 0"
    and "object_method s stodium_g_byte_buffer_method_array h = Some a"
    and "a \<noteq> 0" and "heap s a = Some bs"
    and "copy_address s (copies_made s) \<noteq> 0"
  shows "content (fst (stodium_get_buffer d h s)) = copy_address s (copies_made s)"
    and "memory (snd (stodium_get_buffer d h s)) =
           write_bytes (memory s) (copy_address s (copies_made s)) bs"
    and "pins (snd (stodium_get_buffer d h s)) =
           add_mset (a, copy_address s (copies_made s)) (pins s)"
  using assms
  by (simp_all add: stodium_get_buffer_def jni_defs Let_def split_def split: option.split)

lemma get_buffer_exception:
  "exception_pending (snd (stodium_get_buffer d h s)) =
     (exception_pending s \<or> method_throws s h)"
  by (auto simp add: stodium_get_buffer_def jni_defs method_throws_def Let_def split_def
      split: option.split)

lemma get_buffer_static:
  "direct_address (snd (stodium_get_buffer d h s)) = direct_address s"
  "direct_capacity (snd (stodium_get_buffer d h s)) = direct_capacity s"
  "object_method (snd (stodium_get_buffer d h s)) = object_method s"
  "int_method (snd (stodium_get_buffer d h s)) = int_method s"
  "copy_address (snd (stodium_get_buffer d h s)) = copy_address s"
  by (simp_all add: stodium_get_buffer_def jni_defs Let_def split_def split: option.split)

lemma method_throws_get_buffer:
  "method_throws (snd (stodium_get_buffer d h s)) h' = method_throws s h'"
  by (simp add: method_throws_def get_buffer_static)

lemma release_of_direct:
  "is_direct v \<Longrightarrow>
     stodium_release_output h v s = record_call (Call_stodium_release_output h v) s"
  "is_direct v \<or> content v = 0 \<Longrightarrow>
     stodium_release_input h v s = record_call (Call_stodium_release_input h v) s"
  by (simp_all add: stodium_release_output_def stodium_release_input_def Let_def)

lemma release_input_frame:
  "heap (stodium_release_input h v s) = heap s"
  "memory (stodium_release_input h v s) = memory s"
  by (simp_all add: stodium_release_input_def ReleaseByteArrayElements_def JNI_ABORT_def
      JNI_COMMIT_def Let_def split: option.split)

lemma release_input_calls:
  "\<not> is_direct v \<Longrightarrow> content v \<noteq> 0 \<Longrightarrow>
   calls (stodium_release_input h v s) = calls s @
     [Call_stodium_release_input h v,
      Call_ReleaseByteArrayElements (backing_array v) (content v) JNI_ABORT]"
  by (simp add: stodium_release_input_def calls_ReleaseByteArrayElements Let_def)

lemma release_output_pinned:
  assumes "\<not> is_direct v" and "heap s (backing_array v) = Some bs"
    and "(backing_array v, content v) \<in># pins s"
  shows "heap (stodium_release_output h v s) =
           (heap s)(backing_array v \<mapsto> read_bytes (memory s) (content v) (length bs))"
    and "pins (stodium_release_output h v s) = pins s - {#(backing_array v, content v)#}"
    and "memory (stodium_release_output h v s) = memory s"
    and "calls (stodium_release_output h v s) = calls s @
           [Call_stodium_release_output h v,
            Call_ReleaseByteArrayElements (backing_array v) (content v) 0]"
  using assms
  by (simp_all add: stodium_release_output_def ReleaseByteArrayElements_def Let_def record_call_def)

lemma read_bytes_nth: "i < n \<Longrightarrow> read_bytes m p n ! i = m (p + of_nat i)"
  by (simp add: read_bytes_def)

lemma length_read_bytes: "length (read_bytes m p n) = n"
  by (simp add: read_bytes_def)

subsection \<open>Consequences for a whole invocation\<close>

lemma release_output_new_calls:
  assumes "\<not> is_direct v" and "heap s (backing_array v) = Some bs"
    and "(backing_array v, content v) \<in># pins s"
  shows "new_calls s (stodium_release_output h v s) =
     [Call_stodium_release_output h v,
      Call_ReleaseByteArrayElements (backing_array v) (content v) 0]"
  by (simp add: new_calls_def release_output_pinned(4) [OF assms])

lemma hsalsa20_throws:
  "exception_pending (snd (crypto_1core_1hsalsa20 prim ld ls lk lc dst src key constant s)) =
     (exception_pending s \<or> method_throws s dst \<or> method_throws s src \<or>
      method_throws s key \<or> method_throws s constant)"
  by (simp add: hsalsa20_exception [unfolded split_def] get_buffer_exception
      method_throws_get_buffer)

lemma scalarmult_throws:
  "exception_pending (snd (crypto_1scalarmult_1curve25519 prim ld ls lk dst priv pub s)) =
     (exception_pending s \<or> method_throws s dst \<or> method_throws s priv \<or>
      method_throws s pub)"
  by (simp add: scalarmult_exception [unfolded split_def] get_buffer_exception
      method_throws_get_buffer)

lemma base_throws:
  "exception_pending (snd (crypto_1scalarmult_1curve25519_1base prim ld ls dst src s)) =
     (exception_pending s \<or> method_throws s dst \<or> method_throws s src)"
  by (simp add: base_exception [unfolded split_def] get_buffer_exception
      method_throws_get_buffer)

subsection \<open>The concrete runtime, evaluated\<close>

lemma example_no_room_fields:
  "direct_address example_jvm_no_room = direct_address example_jvm"
  "direct_capacity example_jvm_no_room = direct_capacity example_jvm"
  "object_method example_jvm_no_room = object_method example_jvm"
  "int_method example_jvm_no_room = int_method example_jvm"
  "heap example_jvm_no_room = heap example_jvm"
  "copies_made example_jvm_no_room = copies_made example_jvm"
  "copy_address example_jvm_no_room n = 0"
  "exception_pending example_jvm_no_room = exception_pending example_jvm"
  "calls example_jvm_no_room = []"
  by (simp_all add: example_jvm_no_room_def example_jvm_def)

lemma example_resolve_direct:
  "stodium_get_buffer example_locals 4 example_jvm =
     (\<lparr>content = 0x1000, offset = 0, capacity = 32, is_direct = True, backing_array = 9\<rparr>,
      example_jvm\<lparr>calls :=
        [Call_GetDirectBufferAddress 4, Call_GetDirectBufferCapacity 4,
         Call_stodium_get_buffer 4
           \<lparr>content = 0x1000, offset = 0, capacity = 32, is_direct = True,
              backing_array = 9\<rparr>]\<rparr>)"
  by (simp add: get_buffer_direct size_t_of_jlong_id example_jvm_def example_locals_def)

lemma example_resolve_heap:
  "fst (stodium_get_buffer example_locals 2 (example_jvm\<lparr>calls := cs\<rparr>)) =
     \<lparr>content = 0x2000, offset = 1, capacity = 2, is_direct = False, backing_array = 7\<rparr>"
  by (simp add: stodium_get_buffer_def jni_defs record_call_def size_t_of_jint_def Let_def
      example_jvm_def example_locals_def)

section \<open>The JNI calls and the heap over a whole invocation\<close>

lemma jni_releases_append: "jni_releases (xs @ ys) = jni_releases xs @ jni_releases ys"
  by (induction xs rule: jni_releases.induct) simp_all

lemma jni_releases_new_calls:
  assumes "prefix (calls s) (calls s')"
  shows "jni_releases (new_calls s s') =
           drop (length (jni_releases (calls s))) (jni_releases (calls s'))"
proof -
  from assms obtain zs where "calls s' = calls s @ zs"
    by (auto simp: prefix_def)
  then show ?thesis by (simp add: new_calls_def jni_releases_append)
qed

lemma jni_releases_stodium_get_buffer:
  "jni_releases (calls (snd (stodium_get_buffer d h s))) = jni_releases (calls s)"
  by (simp add: stodium_get_buffer_def Let_def split_def jni_calls jni_releases_append)

lemma jni_releases_call_primitive:
  "jni_releases (calls (snd (call_primitive args f s))) = jni_releases (calls s)"
  by (simp add: calls_call_primitive jni_releases_append)

lemma jni_releases_stodium_release_output:
  "jni_releases (calls (stodium_release_output h v s)) = jni_releases (calls s) @ commit_call v"
  by (simp add: stodium_release_output_def Let_def jni_calls jni_releases_append commit_call_def)

lemma jni_releases_stodium_release_input:
  "jni_releases (calls (stodium_release_input h v s)) = jni_releases (calls s) @ discard_call v"
  by (simp add: stodium_release_input_def Let_def jni_calls jni_releases_append discard_call_def)

lemmas jni_releases_steps = jni_releases_stodium_get_buffer jni_releases_call_primitive
  jni_releases_stodium_release_output jni_releases_stodium_release_input

lemma hsalsa20_jni_releases:
  "(case stodium_get_buffer ld dst s of (vd, sd) \<Rightarrow>
    case stodium_get_buffer ls src sd of (vs, ss) \<Rightarrow>
    case stodium_get_buffer lk key ss of (vk, sk) \<Rightarrow>
    case stodium_get_buffer lc constant sk of (vc, sc) \<Rightarrow>
      jni_releases (new_calls s
          (snd (crypto_1core_1hsalsa20 prim ld ls lk lc dst src key constant s))) =
        commit_call vd @ discard_call vs @ discard_call vk @ discard_call vc)"
  by (simp add: split_def jni_releases_new_calls [OF hsalsa20_prefix])
    (simp add: crypto_1core_1hsalsa20_def split_def Let_def jni_releases_steps)

lemma scalarmult_jni_releases:
  "(case stodium_get_buffer ld dst s of (vd, sd) \<Rightarrow>
    case stodium_get_buffer ls priv sd of (vs, ss) \<Rightarrow>
    case stodium_get_buffer lk pub ss of (vk, sk) \<Rightarrow>
      jni_releases (new_calls s
          (snd (crypto_1scalarmult_1curve25519 prim ld ls lk dst priv pub s))) =
        commit_call vd @ discard_call vs @ discard_call vk)"
  by (simp add: split_def jni_releases_new_calls [OF scalarmult_prefix])
    (simp add: crypto_1scalarmult_1curve25519_def split_def Let_def jni_releases_steps)

lemma base_jni_releases:
  "(case stodium_get_buffer ld dst s of (vd, sd) \<Rightarrow>
    case stodium_get_buffer ls src sd of (vs, ss) \<Rightarrow>
      jni_releases (new_calls s
          (snd (crypto_1scalarmult_1curve25519_1base prim ld ls dst src s))) =
        commit_call vd @ discard_call vs)"
  by (simp add: split_def jni_releases_new_calls [OF base_prefix])
    (simp add: crypto_1scalarmult_1curve25519_1base_def split_def Let_def jni_releases_steps)

lemma pin_requests_append: "pin_requests (xs @ ys) = pin_requests xs @ pin_requests ys"
  by (induction xs rule: pin_requests.induct) simp_all

lemma pin_requests_new_calls:
  assumes "prefix (calls s) (calls s')"
  shows "pin_requests (new_calls s s') =
           drop (length (pin_requests (calls s))) (pin_requests (calls s'))"
proof -
  from assms obtain zs where "calls s' = calls s @ zs"
    by (auto simp: prefix_def)
  then show ?thesis by (simp add: new_calls_def pin_requests_append)
qed

lemma pin_requests_stodium_get_buffer:
  "pin_requests (calls (snd (stodium_get_buffer d h s))) =
     pin_requests (calls s) @ pin_request s h"
  by (simp add: stodium_get_buffer_def Let_def split_def jni_calls pin_requests_append
      pin_request_def)
    (simp add: jni_defs Let_def split: option.split)

lemma pin_request_stodium_get_buffer:
  "pin_request (snd (stodium_get_buffer d h s)) h' = pin_request s h'"
  by (simp add: pin_request_def get_buffer_static)

lemma pin_requests_call_primitive:
  "pin_requests (calls (snd (call_primitive args f s))) = pin_requests (calls s)"
  by (simp add: calls_call_primitive pin_requests_append)

lemma pin_requests_stodium_release_output:
  "pin_requests (calls (stodium_release_output h v s)) = pin_requests (calls s)"
  by (simp add: stodium_release_output_def Let_def jni_calls pin_requests_append)

lemma pin_requests_stodium_release_input:
  "pin_requests (calls (stodium_release_input h v s)) = pin_requests (calls s)"
  by (simp add: stodium_release_input_def Let_def jni_calls pin_requests_append)

lemmas pin_requests_steps = pin_requests_stodium_get_buffer pin_request_stodium_get_buffer
  pin_requests_call_primitive pin_requests_stodium_release_output
  pin_requests_stodium_release_input

lemma hsalsa20_pin_requests:
  "pin_requests (new_calls s
      (snd (crypto_1core_1hsalsa20 prim ld ls lk lc dst src key constant s))) =
     pin_request s dst @ pin_request s src @ pin_request s key @ pin_request s constant"
  by (simp add: pin_requests_new_calls [OF hsalsa20_prefix])
    (simp add: crypto_1core_1hsalsa20_def split_def Let_def pin_requests_steps)

lemma scalarmult_pin_requests:
  "pin_requests (new_calls s
      (snd (crypto_1scalarmult_1curve25519 prim ld ls lk dst priv pub s))) =
     pin_request s dst @ pin_request s priv @ pin_request s pub"
  by (simp add: pin_requests_new_calls [OF scalarmult_prefix])
    (simp add: crypto_1scalarmult_1curve25519_def split_def Let_def pin_requests_steps)

lemma base_pin_requests:
  "pin_requests (new_calls s
      (snd (crypto_1scalarmult_1curve25519_1base prim ld ls dst src s))) =
     pin_request s dst @ pin_request s src"
  by (simp add: pin_requests_new_calls [OF base_prefix])
    (simp add: crypto_1scalarmult_1curve25519_1base_def split_def Let_def pin_requests_steps)

lemma resolution_defined_no_null_request:
  "resolution_defined s h \<Longrightarrow> 0 \<notin> set (pin_request s h)"
  by (auto simp add: resolution_defined_def pin_request_def split: option.splits)

lemma resolution_defined_no_throw:
  "resolution_defined s h \<Longrightarrow> \<not> method_throws s h"
  by (auto simp add: resolution_defined_def method_throws_def split: option.splits)

lemma discard_call_no_null: "\<forall>r\<in>set (discard_call v). fst (snd r) \<noteq> 0"
  by (simp add: discard_call_def)

lemma commit_call_no_null:
  "is_direct v \<or> content v \<noteq> 0 \<Longrightarrow> \<forall>r\<in>set (commit_call v). fst (snd r) \<noteq> 0"
  by (auto simp add: commit_call_def)

lemma get_buffer_pin_fails:
  assumes "h \<noteq> 0" and "direct_address s h = 0"
    and "object_method s stodium_g_byte_buffer_method_array h = Some a"
    and "a \<noteq> 0" and "heap s a = Some bs"
    and "copy_address s (copies_made s) = 0"
    and "int_method s stodium_g_byte_buffer_method_array_offset h = Some off"
    and "int_method s stodium_g_byte_buffer_method_remaining h = Some rem"
  shows "stodium_get_buffer d h s =
     (\<lparr>content = 0, offset = size_t_of_jint off, capacity = size_t_of_jint rem,
        is_direct = False, backing_array = a\<rparr>,
      s\<lparr>copies_made := Suc (copies_made s),
        calls := calls s @
          [Call_GetDirectBufferAddress h,
           Call_CallObjectMethod h stodium_g_byte_buffer_method_array,
           Call_GetByteArrayElements a,
           Call_CallIntMethod h stodium_g_byte_buffer_method_array_offset,
           Call_CallIntMethod h stodium_g_byte_buffer_method_remaining,
           Call_stodium_get_buffer h
             \<lparr>content = 0, offset = size_t_of_jint off, capacity = size_t_of_jint rem,
                is_direct = False, backing_array = a\<rparr>]\<rparr>)"
  using assms
  by (simp add: stodium_get_buffer_def jni_defs record_call_def Let_def)

lemma heap_stodium_get_buffer: "heap (snd (stodium_get_buffer d h s)) = heap s"
  by (simp add: stodium_get_buffer_def jni_defs Let_def split_def split: option.split)

lemma heap_call_primitive: "heap (snd (call_primitive args f s)) = heap s"
  by (simp add: call_primitive_def split_def Let_def)

lemma memory_call_primitive: "memory (snd (call_primitive args f s)) = snd (f (memory s))"
  by (simp add: call_primitive_def split_def Let_def)

lemma memory_stodium_release_output: "memory (stodium_release_output h v s) = memory s"
  by (simp add: stodium_release_output_def ReleaseByteArrayElements_def Let_def
      split: option.split)

lemma heap_stodium_release_output_direct:
  "is_direct v \<Longrightarrow> heap (stodium_release_output h v s) = heap s"
  by (simp add: release_of_direct)

lemma pin_of_member:
  "\<not> is_direct v \<Longrightarrow> content v \<noteq> 0 \<Longrightarrow> (backing_array v, content v) \<in># pin_of v"
  by (simp add: pin_of_def)

lemma hsalsa20_commit:
  "(case stodium_get_buffer ld dst s of (vd, sd) \<Rightarrow>
    case stodium_get_buffer ls src sd of (vs, ss) \<Rightarrow>
    case stodium_get_buffer lk key ss of (vk, sk) \<Rightarrow>
    case stodium_get_buffer lc constant sk of (vc, sc) \<Rightarrow>
      memory (snd (crypto_1core_1hsalsa20 prim ld ls lk lc dst src key constant s)) =
        snd (prim (AS_OUTPUT vd) (AS_INPUT vs) (AS_INPUT vk) (AS_INPUT vc) (memory sc)) \<and>
      (is_direct vd \<longrightarrow>
         heap (snd (crypto_1core_1hsalsa20 prim ld ls lk lc dst src key constant s)) = heap s) \<and>
      (\<forall>bs. \<not> is_direct vd \<and> content vd \<noteq> 0 \<and> heap s (backing_array vd) = Some bs \<longrightarrow>
         heap (snd (crypto_1core_1hsalsa20 prim ld ls lk lc dst src key constant s)) =
           (heap s)(backing_array vd \<mapsto> read_bytes
              (snd (prim (AS_OUTPUT vd) (AS_INPUT vs) (AS_INPUT vk) (AS_INPUT vc) (memory sc)))
              (content vd) (length bs))))"
proof -
  obtain vd sd where gd: "stodium_get_buffer ld dst s = (vd, sd)" by force
  obtain vs ss where gs: "stodium_get_buffer ls src sd = (vs, ss)" by force
  obtain vk sk where gk: "stodium_get_buffer lk key ss = (vk, sk)" by force
  obtain vc sc where gc: "stodium_get_buffer lc constant sk = (vc, sc)" by force
  define sp where "sp = snd (call_primitive
      [AS_OUTPUT vd, AS_INPUT vs, AS_INPUT vk, AS_INPUT vc]
      (prim (AS_OUTPUT vd) (AS_INPUT vs) (AS_INPUT vk) (AS_INPUT vc)) sc)"
  have pd: "pins sd = pins s + pin_of vd" and hd: "heap sd = heap s"
    using pins_stodium_get_buffer [of ld dst s] heap_stodium_get_buffer [of ld dst s]
    by (simp_all add: gd)
  have ps: "pins ss = pins sd + pin_of vs" and hs: "heap ss = heap sd"
    using pins_stodium_get_buffer [of ls src sd] heap_stodium_get_buffer [of ls src sd]
    by (simp_all add: gs)
  have pk: "pins sk = pins ss + pin_of vk" and hk: "heap sk = heap ss"
    using pins_stodium_get_buffer [of lk key ss] heap_stodium_get_buffer [of lk key ss]
    by (simp_all add: gk)
  have pc: "pins sc = pins sk + pin_of vc" and hc: "heap sc = heap sk"
    using pins_stodium_get_buffer [of lc "constant" sk] heap_stodium_get_buffer [of lc "constant" sk]
    by (simp_all add: gc)
  have pp: "pins sp = pins s + pin_of vd + pin_of vs + pin_of vk + pin_of vc"
    and hp: "heap sp = heap s"
    and mp: "memory sp =
      snd (prim (AS_OUTPUT vd) (AS_INPUT vs) (AS_INPUT vk) (AS_INPUT vc) (memory sc))"
    by (simp_all add: sp_def pins_call_primitive heap_call_primitive memory_call_primitive
        pd ps pk pc hd hs hk hc)
  have run: "snd (crypto_1core_1hsalsa20 prim ld ls lk lc dst src key constant s) =
      stodium_release_input constant vc (stodium_release_input key vk
        (stodium_release_input src vs (stodium_release_output dst vd sp)))"
    by (simp add: crypto_1core_1hsalsa20_def gd gs gk gc sp_def Let_def split_def)
  have m: "memory (snd (crypto_1core_1hsalsa20 prim ld ls lk lc dst src key constant s)) =
      snd (prim (AS_OUTPUT vd) (AS_INPUT vs) (AS_INPUT vk) (AS_INPUT vc) (memory sc))"
    by (simp add: run release_input_frame memory_stodium_release_output mp)
  have h1: "heap (snd (crypto_1core_1hsalsa20 prim ld ls lk lc dst src key constant s)) = heap s"
    if "is_direct vd"
    using that by (simp add: run release_input_frame heap_stodium_release_output_direct hp)
  have h2: "heap (snd (crypto_1core_1hsalsa20 prim ld ls lk lc dst src key constant s)) =
      (heap s)(backing_array vd \<mapsto> read_bytes
         (snd (prim (AS_OUTPUT vd) (AS_INPUT vs) (AS_INPUT vk) (AS_INPUT vc) (memory sc)))
         (content vd) (length bs))"
    if "\<not> is_direct vd" and "content vd \<noteq> 0" and "heap s (backing_array vd) = Some bs" for bs
  proof -
    have "(backing_array vd, content vd) \<in># pins sp"
      using pin_of_member [OF that(1,2)] by (simp add: pp)
    then show ?thesis
      using that
      by (simp add: run release_input_frame release_output_pinned(1) [where bs = bs] hp mp)
  qed
  show ?thesis
    using m h1 h2 by (simp add: gd gs gk gc)
qed

lemma scalarmult_commit:
  "(case stodium_get_buffer ld dst s of (vd, sd) \<Rightarrow>
    case stodium_get_buffer ls priv sd of (vs, ss) \<Rightarrow>
    case stodium_get_buffer lk pub ss of (vk, sk) \<Rightarrow>
      memory (snd (crypto_1scalarmult_1curve25519 prim ld ls lk dst priv pub s)) =
        snd (prim (AS_OUTPUT vd) (AS_INPUT vs) (AS_INPUT vk) (memory sk)) \<and>
      (is_direct vd \<longrightarrow>
         heap (snd (crypto_1scalarmult_1curve25519 prim ld ls lk dst priv pub s)) = heap s) \<and>
      (\<forall>bs. \<not> is_direct vd \<and> content vd \<noteq> 0 \<and> heap s (backing_array vd) = Some bs \<longrightarrow>
         heap (snd (crypto_1scalarmult_1curve25519 prim ld ls lk dst priv pub s)) =
           (heap s)(backing_array vd \<mapsto> read_bytes
              (snd (prim (AS_OUTPUT vd) (AS_INPUT vs) (AS_INPUT vk) (memory sk)))
              (content vd) (length bs))))"
proof -
  obtain vd sd where gd: "stodium_get_buffer ld dst s = (vd, sd)" by force
  obtain vs ss where gs: "stodium_get_buffer ls priv sd = (vs, ss)" by force
  obtain vk sk where gk: "stodium_get_buffer lk pub ss = (vk, sk)" by force
  define sp where "sp = snd (call_primitive
      [AS_OUTPUT vd, AS_INPUT vs, AS_INPUT vk]
      (prim (AS_OUTPUT vd) (AS_INPUT vs) (AS_INPUT vk)) sk)"
  have pd: "pins sd = pins s + pin_of vd" and hd: "heap sd = heap s"
    using pins_stodium_get_buffer [of ld dst s] heap_stodium_get_buffer [of ld dst s]
    by (simp_all add: gd)
  have ps: "pins ss = pins sd + pin_of vs" and hs: "heap ss = heap sd"
    using pins_stodium_get_buffer [of ls priv sd] heap_stodium_get_buffer [of ls priv sd]
    by (simp_all add: gs)
  have pk: "pins sk = pins ss + pin_of vk" and hk: "heap sk = heap ss"
    using pins_stodium_get_buffer [of lk pub ss] heap_stodium_get_buffer [of lk pub ss]
    by (simp_all add: gk)
  have pp: "pins sp = pins s + pin_of vd + pin_of vs + pin_of vk"
    and hp: "heap sp = heap s"
    and mp: "memory sp =
      snd (prim (AS_OUTPUT vd) (AS_INPUT vs) (AS_INPUT vk) (memory sk))"
    by (simp_all add: sp_def pins_call_primitive heap_call_primitive memory_call_primitive
        pd ps pk hd hs hk)
  have run: "snd (crypto_1scalarmult_1curve25519 prim ld ls lk dst priv pub s) =
      stodium_release_input pub vk
        (stodium_release_input priv vs (stodium_release_output dst vd sp))"
    by (simp add: crypto_1scalarmult_1curve25519_def gd gs gk sp_def Let_def split_def)
  have m: "memory (snd (crypto_1scalarmult_1curve25519 prim ld ls lk dst priv pub s)) =
      snd (prim (AS_OUTPUT vd) (AS_INPUT vs) (AS_INPUT vk) (memory sk))"
    by (simp add: run release_input_frame memory_stodium_release_output mp)
  have h1: "heap (snd (crypto_1scalarmult_1curve25519 prim ld ls lk dst priv pub s)) = heap s"
    if "is_direct vd"
    using that by (simp add: run release_input_frame heap_stodium_release_output_direct hp)
  have h2: "heap (snd (crypto_1scalarmult_1curve25519 prim ld ls lk dst priv pub s)) =
      (heap s)(backing_array vd \<mapsto> read_bytes
         (snd (prim (AS_OUTPUT vd) (AS_INPUT vs) (AS_INPUT vk) (memory sk)))
         (content vd) (length bs))"
    if "\<not> is_direct vd" and "content vd \<noteq> 0" and "heap s (backing_array vd) = Some bs" for bs
  proof -
    have "(backing_array vd, content vd) \<in># pins sp"
      using pin_of_member [OF that(1,2)] by (simp add: pp)
    then show ?thesis
      using that
      by (simp add: run release_input_frame release_output_pinned(1) [where bs = bs] hp mp)
  qed
  show ?thesis
    using m h1 h2 by (simp add: gd gs gk)
qed

lemma base_commit:
  "(case stodium_get_buffer ld dst s of (vd, sd) \<Rightarrow>
    case stodium_get_buffer ls src sd of (vs, ss) \<Rightarrow>
      memory (snd (crypto_1scalarmult_1curve25519_1base prim ld ls dst src s)) =
        snd (prim (AS_OUTPUT vd) (AS_INPUT vs) (memory ss)) \<and>
      (is_direct vd \<longrightarrow>
         heap (snd (crypto_1scalarmult_1curve25519_1base prim ld ls dst src s)) = heap s) \<and>
      (\<forall>bs. \<not> is_direct vd \<and> content vd \<noteq> 0 \<and> heap s (backing_array vd) = Some bs \<longrightarrow>
         heap (snd (crypto_1scalarmult_1curve25519_1base prim ld ls dst src s)) =
           (heap s)(backing_array vd \<mapsto> read_bytes
              (snd (prim (AS_OUTPUT vd) (AS_INPUT vs) (memory ss)))
              (content vd) (length bs))))"
proof -
  obtain vd sd where gd: "stodium_get_buffer ld dst s = (vd, sd)" by force
  obtain vs ss where gs: "stodium_get_buffer ls src sd = (vs, ss)" by force
  define sp where "sp = snd (call_primitive
      [AS_OUTPUT vd, AS_INPUT vs] (prim (AS_OUTPUT vd) (AS_INPUT vs)) ss)"
  have pd: "pins sd = pins s + pin_of vd" and hd: "heap sd = heap s"
    using pins_stodium_get_buffer [of ld dst s] heap_stodium_get_buffer [of ld dst s]
    by (simp_all add: gd)
  have ps: "pins ss = pins sd + pin_of vs" and hs: "heap ss = heap sd"
    using pins_stodium_get_buffer [of ls src sd] heap_stodium_get_buffer [of ls src sd]
    by (simp_all add: gs)
  have pp: "pins sp = pins s + pin_of vd + pin_of vs"
    and hp: "heap sp = heap s"
    and mp: "memory sp =
      snd (prim (AS_OUTPUT vd) (AS_INPUT vs) (memory ss))"
    by (simp_all add: sp_def pins_call_primitive heap_call_primitive memory_call_primitive
        pd ps hd hs)
  have run: "snd (crypto_1scalarmult_1curve25519_1base prim ld ls dst src s) =
      stodium_release_input src vs (stodium_release_output dst vd sp)"
    by (simp add: crypto_1scalarmult_1curve25519_1base_def gd gs sp_def Let_def split_def)
  have m: "memory (snd (crypto_1scalarmult_1curve25519_1base prim ld ls dst src s)) =
      snd (prim (AS_OUTPUT vd) (AS_INPUT vs) (memory ss))"
    by (simp add: run release_input_frame memory_stodium_release_output mp)
  have h1: "heap (snd (crypto_1scalarmult_1curve25519_1base prim ld ls dst src s)) = heap s"
    if "is_direct vd"
    using that by (simp add: run release_input_frame heap_stodium_release_output_direct hp)
  have h2: "heap (snd (crypto_1scalarmult_1curve25519_1base prim ld ls dst src s)) =
      (heap s)(backing_array vd \<mapsto> read_bytes
         (snd (prim (AS_OUTPUT vd) (AS_INPUT vs) (memory ss)))
         (content vd) (length bs))"
    if "\<not> is_direct vd" and "content vd \<noteq> 0" and "heap s (backing_array vd) = Some bs" for bs
  proof -
    have "(backing_array vd, content vd) \<in># pins sp"
      using pin_of_member [OF that(1,2)] by (simp add: pp)
    then show ?thesis
      using that
      by (simp add: run release_input_frame release_output_pinned(1) [where bs = bs] hp mp)
  qed
  show ?thesis
    using m h1 h2 by (simp add: gd gs)
qed

subsection \<open>The concrete runtime, evaluated further\<close>

lemma example_jvm_fields:
  "direct_address example_jvm 4 = 0x1000"
  "direct_address example_jvm 2 = 0"
  "direct_capacity example_jvm 4 = 32"
  "object_method example_jvm stodium_g_byte_buffer_method_array 2 = Some 7"
  "int_method example_jvm stodium_g_byte_buffer_method_array_offset 2 = Some 1"
  "int_method example_jvm stodium_g_byte_buffer_method_remaining 2 = Some 2"
  "heap example_jvm 7 = Some [10, 11, 12, 13]"
  "copies_made example_jvm = 0"
  "copy_address example_jvm 0 = 0x2000"
  "memory example_jvm = (\<lambda>a. 0)"
  "pins example_jvm = {#}"
  "exception_pending example_jvm = False"
  "calls example_jvm = []"
  by (simp_all add: example_jvm_def)

lemma example_resolve_heap_first:
  "fst (stodium_get_buffer example_locals 2 example_jvm) =
     \<lparr>content = 0x2000, offset = 1, capacity = 2, is_direct = False, backing_array = 7\<rparr>"
  "memory (snd (stodium_get_buffer example_locals 2 example_jvm)) =
     write_bytes (\<lambda>a. 0) 0x2000 [10, 11, 12, 13]"
  using example_resolve_heap [of "[]"]
    get_buffer_pinned_copy(2) [of 2 example_jvm 7 "[10, 11, 12, 13]" example_locals]
  by (simp_all add: example_jvm_fields) (simp add: example_jvm_def)

lemma example_resolve_direct_second:
  "fst (stodium_get_buffer example_locals 4 (snd (stodium_get_buffer d h example_jvm))) =
     \<lparr>content = 0x1000, offset = 0, capacity = 32, is_direct = True, backing_array = 9\<rparr>"
  "memory (snd (stodium_get_buffer example_locals 4 (snd (stodium_get_buffer d h example_jvm)))) =
     memory (snd (stodium_get_buffer d h example_jvm))"
  by (simp_all add: get_buffer_direct get_buffer_static example_jvm_fields size_t_of_jlong_id
      example_locals_def)

lemma example_no_room_more:
  "pins example_jvm_no_room = {#}"
  "memory example_jvm_no_room = memory example_jvm"
  by (simp_all add: example_jvm_no_room_def example_jvm_def)

lemma example_no_room_direct:
  "stodium_get_buffer example_locals 4 example_jvm_no_room =
     (\<lparr>content = 0x1000, offset = 0, capacity = 32, is_direct = True, backing_array = 9\<rparr>,
      example_jvm_no_room\<lparr>calls :=
        [Call_GetDirectBufferAddress 4, Call_GetDirectBufferCapacity 4,
         Call_stodium_get_buffer 4
           \<lparr>content = 0x1000, offset = 0, capacity = 32, is_direct = True,
              backing_array = 9\<rparr>]\<rparr>)"
  by (simp add: get_buffer_direct size_t_of_jlong_id example_no_room_fields example_jvm_fields
      example_locals_def)

lemma example_no_room_heap:
  "stodium_get_buffer example_locals 2 (example_jvm_no_room\<lparr>calls := cs\<rparr>) =
     (\<lparr>content = 0, offset = 1, capacity = 2, is_direct = False, backing_array = 7\<rparr>,
      example_jvm_no_room\<lparr>copies_made := Suc 0,
        calls := cs @
          [Call_GetDirectBufferAddress 2,
           Call_CallObjectMethod 2 stodium_g_byte_buffer_method_array,
           Call_GetByteArrayElements 7,
           Call_CallIntMethod 2 stodium_g_byte_buffer_method_array_offset,
           Call_CallIntMethod 2 stodium_g_byte_buffer_method_remaining,
           Call_stodium_get_buffer 2
             \<lparr>content = 0, offset = 1, capacity = 2, is_direct = False,
                backing_array = 7\<rparr>]\<rparr>)"
  using get_buffer_pin_fails [where h = 2 and s = "example_jvm_no_room\<lparr>calls := cs\<rparr>"
      and a = 7 and bs = "[10, 11, 12, 13]" and off = 1 and rem = 2 and d = example_locals]
  by (simp add: example_no_room_fields example_jvm_fields size_t_of_jint_def)

section \<open>The primitive wrappers: release discipline\<close>

text \<open>
  C1. Release totality. In every invocation of \<open>crypto_1core_1hsalsa20\<close>,
  \<open>crypto_1scalarmult_1curve25519\<close> and \<open>crypto_1scalarmult_1curve25519_1base\<close>, whatever
  the primitive does and whatever status it returns, the handles resolved by
  \<open>stodium_get_buffer\<close>, each with the descriptor it got, are exactly the handles released
  by \<open>stodium_release_output\<close> or \<open>stodium_release_input\<close>, each once: four, three and two
  of them. When the runtime holds no copy at the null address, the element copies
  outstanding after the invocation are those outstanding before it.
\<close>

theorem release_totality:
  "resolved (new_calls s (snd (crypto_1core_1hsalsa20 hsalsa ld ls lk lc dst src key constant s))) =
     released (new_calls s (snd (crypto_1core_1hsalsa20 hsalsa ld ls lk lc dst src key constant s))) \<and>
   map fst (released (new_calls s
       (snd (crypto_1core_1hsalsa20 hsalsa ld ls lk lc dst src key constant s)))) =
     [dst, src, key, constant] \<and>
   length (resolved (new_calls s
       (snd (crypto_1core_1hsalsa20 hsalsa ld ls lk lc dst src key constant s)))) = 4 \<and>
   length (released (new_calls s
       (snd (crypto_1core_1hsalsa20 hsalsa ld ls lk lc dst src key constant s)))) = 4 \<and>
   resolved (new_calls s (snd (crypto_1scalarmult_1curve25519 smult ld ls lk dst priv pub s))) =
     released (new_calls s (snd (crypto_1scalarmult_1curve25519 smult ld ls lk dst priv pub s))) \<and>
   map fst (released (new_calls s
       (snd (crypto_1scalarmult_1curve25519 smult ld ls lk dst priv pub s)))) =
     [dst, priv, pub] \<and>
   length (resolved (new_calls s
       (snd (crypto_1scalarmult_1curve25519 smult ld ls lk dst priv pub s)))) = 3 \<and>
   length (released (new_calls s
       (snd (crypto_1scalarmult_1curve25519 smult ld ls lk dst priv pub s)))) = 3 \<and>
   resolved (new_calls s (snd (crypto_1scalarmult_1curve25519_1base sbase ld ls dst src s))) =
     released (new_calls s (snd (crypto_1scalarmult_1curve25519_1base sbase ld ls dst src s))) \<and>
   map fst (released (new_calls s
       (snd (crypto_1scalarmult_1curve25519_1base sbase ld ls dst src s)))) =
     [dst, src] \<and>
   length (resolved (new_calls s
       (snd (crypto_1scalarmult_1curve25519_1base sbase ld ls dst src s)))) = 2 \<and>
   length (released (new_calls s
       (snd (crypto_1scalarmult_1curve25519_1base sbase ld ls dst src s)))) = 2 \<and>
   (no_null_pin s \<longrightarrow>
      pins (snd (crypto_1core_1hsalsa20 hsalsa ld ls lk lc dst src key constant s)) = pins s \<and>
      pins (snd (crypto_1scalarmult_1curve25519 smult ld ls lk dst priv pub s)) = pins s \<and>
      pins (snd (crypto_1scalarmult_1curve25519_1base sbase ld ls dst src s)) = pins s)"
  by (simp add:
      resolved_via_api [OF hsalsa20_new_api [unfolded split_def]]
      released_via_api [OF hsalsa20_new_api [unfolded split_def]]
      resolved_via_api [OF scalarmult_new_api [unfolded split_def]]
      released_via_api [OF scalarmult_new_api [unfolded split_def]]
      resolved_via_api [OF base_new_api [unfolded split_def]]
      released_via_api [OF base_new_api [unfolded split_def]]
      hsalsa20_pins scalarmult_pins base_pins)

theorem release_totality_witness:
  "no_null_pin example_jvm \<and>
   map fst (released (new_calls example_jvm
     (snd (crypto_1core_1hsalsa20 failing_primitive4
        example_locals example_locals example_locals example_locals 2 4 3 0 example_jvm)))) =
     [2, 4, 3, 0] \<and>
   length (resolved (new_calls example_jvm
     (snd (crypto_1core_1hsalsa20 failing_primitive4
        example_locals example_locals example_locals example_locals 2 4 3 0 example_jvm)))) = 4 \<and>
   pins (snd (crypto_1core_1hsalsa20 failing_primitive4
        example_locals example_locals example_locals example_locals 2 4 3 0 example_jvm)) = {#}"
  using release_totality [where s = example_jvm and hsalsa = failing_primitive4
      and smult = failing_primitive3 and sbase = failing_primitive2
      and ld = example_locals and ls = example_locals and lk = example_locals
      and lc = example_locals and dst = 2 and src = 4 and key = 3 and ?constant = 0
      and priv = 4 and pub = 3]
  by (simp add: no_null_pin_def example_jvm_def)

text \<open>
  C7. Every wrapper returns the status of the primitive unchanged: the value returned is
  the status the primitive returned for the pointers \<open>content + offset\<close> of the resolved
  descriptors, on native memory as the resolutions left it. The status raises nothing:
  the exception flag at return is the one the resolutions left. Whatever the status, the
  releases are made before the return and take effect: after the primitive the
  invocation calls the release functions, one per descriptor; the JNI releases are the
  commit of the destination (mode \<open>0\<close>) and the discards of the inputs
  (\<^verbatim>\<open>JNI_ABORT\<close>); the destination's backing array holds what the primitive left in its
  copy; and the element copies outstanding at return are those outstanding before the
  invocation.
\<close>

theorem status_returned_unchanged:
  "(case stodium_get_buffer ld dst s of (vd, sd) \<Rightarrow>
    case stodium_get_buffer ls src sd of (vs, ss) \<Rightarrow>
    case stodium_get_buffer lk key ss of (vk, sk) \<Rightarrow>
    case stodium_get_buffer lc constant sk of (vc, sc) \<Rightarrow>
      fst (crypto_1core_1hsalsa20 hsalsa ld ls lk lc dst src key constant s) =
        fst (hsalsa (AS_OUTPUT vd) (AS_INPUT vs) (AS_INPUT vk) (AS_INPUT vc) (memory sc)) \<and>
      api_calls (new_calls s
          (snd (crypto_1core_1hsalsa20 hsalsa ld ls lk lc dst src key constant s))) =
        [Call_stodium_get_buffer dst vd, Call_stodium_get_buffer src vs,
         Call_stodium_get_buffer key vk, Call_stodium_get_buffer constant vc,
         Call_primitive [AS_OUTPUT vd, AS_INPUT vs, AS_INPUT vk, AS_INPUT vc]
           (fst (crypto_1core_1hsalsa20 hsalsa ld ls lk lc dst src key constant s)),
         Call_stodium_release_output dst vd, Call_stodium_release_input src vs,
         Call_stodium_release_input key vk, Call_stodium_release_input constant vc] \<and>
      exception_pending
          (snd (crypto_1core_1hsalsa20 hsalsa ld ls lk lc dst src key constant s)) =
        exception_pending sc \<and>
      jni_releases (new_calls s
          (snd (crypto_1core_1hsalsa20 hsalsa ld ls lk lc dst src key constant s))) =
        commit_call vd @ discard_call vs @ discard_call vk @ discard_call vc \<and>
      memory (snd (crypto_1core_1hsalsa20 hsalsa ld ls lk lc dst src key constant s)) =
        snd (hsalsa (AS_OUTPUT vd) (AS_INPUT vs) (AS_INPUT vk) (AS_INPUT vc) (memory sc)) \<and>
      (is_direct vd \<longrightarrow>
         heap (snd (crypto_1core_1hsalsa20 hsalsa ld ls lk lc dst src key constant s)) =
           heap s) \<and>
      (\<forall>bs. \<not> is_direct vd \<and> content vd \<noteq> 0 \<and> heap s (backing_array vd) = Some bs \<longrightarrow>
         heap (snd (crypto_1core_1hsalsa20 hsalsa ld ls lk lc dst src key constant s)) =
           (heap s)(backing_array vd \<mapsto> read_bytes
              (snd (hsalsa (AS_OUTPUT vd) (AS_INPUT vs) (AS_INPUT vk) (AS_INPUT vc) (memory sc)))
              (content vd) (length bs)))) \<and>
   (case stodium_get_buffer ld dst s of (vd, sd) \<Rightarrow>
    case stodium_get_buffer ls priv sd of (vs, ss) \<Rightarrow>
    case stodium_get_buffer lk pub ss of (vk, sk) \<Rightarrow>
      fst (crypto_1scalarmult_1curve25519 smult ld ls lk dst priv pub s) =
        fst (smult (AS_OUTPUT vd) (AS_INPUT vs) (AS_INPUT vk) (memory sk)) \<and>
      api_calls (new_calls s
          (snd (crypto_1scalarmult_1curve25519 smult ld ls lk dst priv pub s))) =
        [Call_stodium_get_buffer dst vd, Call_stodium_get_buffer priv vs,
         Call_stodium_get_buffer pub vk,
         Call_primitive [AS_OUTPUT vd, AS_INPUT vs, AS_INPUT vk]
           (fst (crypto_1scalarmult_1curve25519 smult ld ls lk dst priv pub s)),
         Call_stodium_release_output dst vd, Call_stodium_release_input priv vs,
         Call_stodium_release_input pub vk] \<and>
      exception_pending
          (snd (crypto_1scalarmult_1curve25519 smult ld ls lk dst priv pub s)) =
        exception_pending sk \<and>
      jni_releases (new_calls s
          (snd (crypto_1scalarmult_1curve25519 smult ld ls lk dst priv pub s))) =
        commit_call vd @ discard_call vs @ discard_call vk \<and>
      memory (snd (crypto_1scalarmult_1curve25519 smult ld ls lk dst priv pub s)) =
        snd (smult (AS_OUTPUT vd) (AS_INPUT vs) (AS_INPUT vk) (memory sk)) \<and>
      (is_direct vd \<longrightarrow>
         heap (snd (crypto_1scalarmult_1curve25519 smult ld ls lk dst priv pub s)) = heap s) \<and>
      (\<forall>bs. \<not> is_direct vd \<and> content vd \<noteq> 0 \<and> heap s (backing_array vd) = Some bs \<longrightarrow>
         heap (snd (crypto_1scalarmult_1curve25519 smult ld ls lk dst priv pub s)) =
           (heap s)(backing_array vd \<mapsto> read_bytes
              (snd (smult (AS_OUTPUT vd) (AS_INPUT vs) (AS_INPUT vk) (memory sk)))
              (content vd) (length bs)))) \<and>
   (case stodium_get_buffer ld dst s of (vd, sd) \<Rightarrow>
    case stodium_get_buffer ls src sd of (vs, ss) \<Rightarrow>
      fst (crypto_1scalarmult_1curve25519_1base sbase ld ls dst src s) =
        fst (sbase (AS_OUTPUT vd) (AS_INPUT vs) (memory ss)) \<and>
      api_calls (new_calls s
          (snd (crypto_1scalarmult_1curve25519_1base sbase ld ls dst src s))) =
        [Call_stodium_get_buffer dst vd, Call_stodium_get_buffer src vs,
         Call_primitive [AS_OUTPUT vd, AS_INPUT vs]
           (fst (crypto_1scalarmult_1curve25519_1base sbase ld ls dst src s)),
         Call_stodium_release_output dst vd, Call_stodium_release_input src vs] \<and>
      exception_pending
          (snd (crypto_1scalarmult_1curve25519_1base sbase ld ls dst src s)) =
        exception_pending ss \<and>
      jni_releases (new_calls s
          (snd (crypto_1scalarmult_1curve25519_1base sbase ld ls dst src s))) =
        commit_call vd @ discard_call vs \<and>
      memory (snd (crypto_1scalarmult_1curve25519_1base sbase ld ls dst src s)) =
        snd (sbase (AS_OUTPUT vd) (AS_INPUT vs) (memory ss)) \<and>
      (is_direct vd \<longrightarrow>
         heap (snd (crypto_1scalarmult_1curve25519_1base sbase ld ls dst src s)) = heap s) \<and>
      (\<forall>bs. \<not> is_direct vd \<and> content vd \<noteq> 0 \<and> heap s (backing_array vd) = Some bs \<longrightarrow>
         heap (snd (crypto_1scalarmult_1curve25519_1base sbase ld ls dst src s)) =
           (heap s)(backing_array vd \<mapsto> read_bytes
              (snd (sbase (AS_OUTPUT vd) (AS_INPUT vs) (memory ss)))
              (content vd) (length bs)))) \<and>
   (no_null_pin s \<longrightarrow>
      pins (snd (crypto_1core_1hsalsa20 hsalsa ld ls lk lc dst src key constant s)) = pins s \<and>
      pins (snd (crypto_1scalarmult_1curve25519 smult ld ls lk dst priv pub s)) = pins s \<and>
      pins (snd (crypto_1scalarmult_1curve25519_1base sbase ld ls dst src s)) = pins s)"
  using hsalsa20_commit [where prim = hsalsa and ld = ld and ls = ls and lk = lk and lc = lc
      and dst = dst and src = src and key = key and ?constant = "constant" and s = s]
    scalarmult_commit [where prim = smult and ld = ld and ls = ls and lk = lk
      and dst = dst and priv = priv and pub = pub and s = s]
    base_commit [where prim = sbase and ld = ld and ls = ls
      and dst = dst and src = src and s = s]
  by (simp add: split_def
      hsalsa20_api [unfolded split_def] hsalsa20_new_api [unfolded split_def]
      hsalsa20_exception [unfolded split_def] hsalsa20_jni_releases [unfolded split_def]
      scalarmult_api [unfolded split_def] scalarmult_new_api [unfolded split_def]
      scalarmult_exception [unfolded split_def] scalarmult_jni_releases [unfolded split_def]
      base_api [unfolded split_def] base_new_api [unfolded split_def]
      base_exception [unfolded split_def] base_jni_releases [unfolded split_def]
      hsalsa20_pins scalarmult_pins base_pins)

theorem status_returned_unchanged_witness:
  "fst (crypto_1scalarmult_1curve25519_1base failing_primitive2
          example_locals example_locals 2 4 example_jvm) = - 1 \<and>
   exception_pending (snd (crypto_1scalarmult_1curve25519_1base failing_primitive2
          example_locals example_locals 2 4 example_jvm)) = False \<and>
   api_calls (new_calls example_jvm (snd (crypto_1scalarmult_1curve25519_1base failing_primitive2
          example_locals example_locals 2 4 example_jvm))) =
     [Call_stodium_get_buffer 2
        \<lparr>content = 0x2000, offset = 1, capacity = 2, is_direct = False, backing_array = 7\<rparr>,
      Call_stodium_get_buffer 4
        \<lparr>content = 0x1000, offset = 0, capacity = 32, is_direct = True, backing_array = 9\<rparr>,
      Call_primitive [0x2001, 0x1000] (- 1),
      Call_stodium_release_output 2
        \<lparr>content = 0x2000, offset = 1, capacity = 2, is_direct = False, backing_array = 7\<rparr>,
      Call_stodium_release_input 4
        \<lparr>content = 0x1000, offset = 0, capacity = 32, is_direct = True, backing_array = 9\<rparr>] \<and>
   jni_releases (new_calls example_jvm (snd (crypto_1scalarmult_1curve25519_1base
          failing_primitive2 example_locals example_locals 2 4 example_jvm))) =
     [(7, 0x2000, 0)] \<and>
   heap example_jvm 7 = Some [10, 11, 12, 13] \<and>
   heap (snd (crypto_1scalarmult_1curve25519_1base failing_primitive2
          example_locals example_locals 2 4 example_jvm)) 7 = Some [10, 99, 12, 13] \<and>
   no_null_pin example_jvm \<and>
   pins (snd (crypto_1scalarmult_1curve25519_1base failing_primitive2
          example_locals example_locals 2 4 example_jvm)) = {#}"
proof -
  have e: "exception_pending (snd (stodium_get_buffer example_locals 4
      (snd (stodium_get_buffer example_locals 2 example_jvm)))) = False"
    by (simp add: get_buffer_exception method_throws_get_buffer)
      (simp add: method_throws_def example_jvm_fields)
  have n: "no_null_pin example_jvm"
    by (simp add: no_null_pin_def example_jvm_fields)
  have r: "read_bytes ((write_bytes (\<lambda>a. 0) 0x2000 [10, 11, 12, 13])(0x2001 := 99)) 0x2000
      (Suc (Suc (Suc (Suc 0)))) = [10, 99, 12, 13]"
    by (simp add: read_bytes_def write_bytes_def upt_rec)
  show ?thesis
    using status_returned_unchanged [where s = example_jvm and hsalsa = failing_primitive4
      and smult = failing_primitive3 and sbase = failing_primitive2
      and ld = example_locals and ls = example_locals and lk = example_locals
      and lc = example_locals and dst = 2 and src = 4 and key = 3 and ?constant = 0
      and priv = 4 and pub = 3, THEN conjunct2, THEN conjunct2]
    by (simp add: split_def e n r example_resolve_heap_first example_resolve_direct_second
        example_jvm_fields failing_primitive2_def AS_OUTPUT_def AS_INPUT_def
        commit_call_def discard_call_def)
qed

text \<open>
  C8. In every wrapper the output descriptor is released, by \<open>stodium_release_output\<close>,
  before any input descriptor is released by \<open>stodium_release_input\<close>: the releases of an
  invocation are the destination as output, then the inputs in argument order, and no
  release as input precedes a release as output.
\<close>

theorem outputs_released_first:
  "release_order (new_calls s
       (snd (crypto_1core_1hsalsa20 hsalsa ld ls lk lc dst src key constant s))) =
     [(As_output, dst), (As_input, src), (As_input, key), (As_input, constant)] \<and>
   outputs_before_inputs (release_order (new_calls s
       (snd (crypto_1core_1hsalsa20 hsalsa ld ls lk lc dst src key constant s)))) \<and>
   release_order (new_calls s
       (snd (crypto_1scalarmult_1curve25519 smult ld ls lk dst priv pub s))) =
     [(As_output, dst), (As_input, priv), (As_input, pub)] \<and>
   outputs_before_inputs (release_order (new_calls s
       (snd (crypto_1scalarmult_1curve25519 smult ld ls lk dst priv pub s)))) \<and>
   release_order (new_calls s
       (snd (crypto_1scalarmult_1curve25519_1base sbase ld ls dst src s))) =
     [(As_output, dst), (As_input, src)] \<and>
   outputs_before_inputs (release_order (new_calls s
       (snd (crypto_1scalarmult_1curve25519_1base sbase ld ls dst src s))))"
  by (simp add:
      release_order_via_api [OF hsalsa20_new_api [unfolded split_def]]
      release_order_via_api [OF scalarmult_new_api [unfolded split_def]]
      release_order_via_api [OF base_new_api [unfolded split_def]])

theorem outputs_released_first_witness:
  "release_order (new_calls example_jvm
       (snd (crypto_1scalarmult_1curve25519 failing_primitive3
          example_locals example_locals example_locals 2 4 0 example_jvm))) =
     [(As_output, 2), (As_input, 4), (As_input, 0)] \<and>
   outputs_before_inputs (release_order (new_calls example_jvm
       (snd (crypto_1scalarmult_1curve25519 failing_primitive3
          example_locals example_locals example_locals 2 4 0 example_jvm)))) \<and>
   \<not> outputs_before_inputs [(As_input, 4), (As_output, 2)]"
  using outputs_released_first [where s = example_jvm and hsalsa = failing_primitive4
      and smult = failing_primitive3 and sbase = failing_primitive2
      and ld = example_locals and ls = example_locals and lk = example_locals
      and lc = example_locals and dst = 2 and src = 4 and key = 3 and ?constant = 0
      and priv = 4 and pub = 0]
  by simp

section \<open>The resolver\<close>

text \<open>
  C4. For every handle that is not \<^verbatim>\<open>NULL\<close>, \<open>stodium_get_buffer\<close> produces one of two
  descriptor shapes. If \<^verbatim>\<open>GetDirectBufferAddress\<close> returns an address, the descriptor is
  direct: \<open>content\<close> is that address, \<open>offset\<close> is \<open>0\<close>, \<open>capacity\<close> is what
  \<^verbatim>\<open>GetDirectBufferCapacity\<close> returns, and nothing is copied: heap, native memory and the
  outstanding copies are as before. Otherwise the descriptor is not direct:
  \<open>backing_array\<close> is the reference \<^verbatim>\<open>array()\<close> returned, \<open>content\<close> is the address of the
  element copy the runtime made of that array (the copy holds the array's bytes and is
  registered as outstanding), \<open>offset\<close> is what \<^verbatim>\<open>arrayOffset()\<close> returned and \<open>capacity\<close>
  what \<^verbatim>\<open>remaining()\<close> returned, converted to \<^verbatim>\<open>size_t\<close>, which keeps every value that is
  not negative.
\<close>

theorem resolve_shapes:
  "h \<noteq> 0 \<Longrightarrow>
   (direct_address s h \<noteq> 0 \<longrightarrow>
      fst (stodium_get_buffer d h s) =
        d\<lparr>content := direct_address s h, offset := 0,
          capacity := size_t_of_jlong (direct_capacity s h), is_direct := True\<rparr> \<and>
      capacity (fst (stodium_get_buffer d h s)) = direct_capacity s h \<and>
      heap (snd (stodium_get_buffer d h s)) = heap s \<and>
      memory (snd (stodium_get_buffer d h s)) = memory s \<and>
      pins (snd (stodium_get_buffer d h s)) = pins s \<and>
      copies_made (snd (stodium_get_buffer d h s)) = copies_made s) \<and>
   (direct_address s h = 0 \<longrightarrow>
      is_direct (fst (stodium_get_buffer d h s)) = False \<and>
      (\<forall>a. object_method s stodium_g_byte_buffer_method_array h = Some a \<longrightarrow>
         backing_array (fst (stodium_get_buffer d h s)) = a \<and>
         (\<forall>bs. a \<noteq> 0 \<and> heap s a = Some bs \<and> copy_address s (copies_made s) \<noteq> 0 \<longrightarrow>
            content (fst (stodium_get_buffer d h s)) = copy_address s (copies_made s) \<and>
            memory (snd (stodium_get_buffer d h s)) =
              write_bytes (memory s) (copy_address s (copies_made s)) bs \<and>
            pins (snd (stodium_get_buffer d h s)) =
              add_mset (a, copy_address s (copies_made s)) (pins s))) \<and>
      (\<forall>off. int_method s stodium_g_byte_buffer_method_array_offset h = Some off \<longrightarrow>
         offset (fst (stodium_get_buffer d h s)) = size_t_of_jint off \<and>
         (0 \<le> sint off \<longrightarrow> unat (offset (fst (stodium_get_buffer d h s))) = nat (sint off))) \<and>
      (\<forall>rem. int_method s stodium_g_byte_buffer_method_remaining h = Some rem \<longrightarrow>
         capacity (fst (stodium_get_buffer d h s)) = size_t_of_jint rem \<and>
         (0 \<le> sint rem \<longrightarrow> unat (capacity (fst (stodium_get_buffer d h s))) = nat (sint rem))))"
proof (cases "direct_address s h = 0")
  case False
  assume "h \<noteq> 0"
  with False show ?thesis
    by (simp add: get_buffer_direct size_t_of_jlong_id)
next
  case True
  assume h: "h \<noteq> 0"
  show ?thesis
    using True
    by (auto simp add: get_buffer_pinned_shape [OF h True] get_buffer_pinned_copy [OF h True]
        size_t_of_jint_nonneg)
qed

theorem resolve_shapes_witness:
  "(4::nat) \<noteq> 0 \<and> direct_address example_jvm 4 \<noteq> 0 \<and>
   fst (stodium_get_buffer example_locals 4 example_jvm) =
     \<lparr>content = 0x1000, offset = 0, capacity = 32, is_direct = True, backing_array = 9\<rparr> \<and>
   (2::nat) \<noteq> 0 \<and> direct_address example_jvm 2 = 0 \<and>
   is_direct (fst (stodium_get_buffer example_locals 2 example_jvm)) = False \<and>
   backing_array (fst (stodium_get_buffer example_locals 2 example_jvm)) = 7 \<and>
   content (fst (stodium_get_buffer example_locals 2 example_jvm)) = 0x2000 \<and>
   unat (offset (fst (stodium_get_buffer example_locals 2 example_jvm))) = 1 \<and>
   unat (capacity (fst (stodium_get_buffer example_locals 2 example_jvm))) = 2 \<and>
   pins (snd (stodium_get_buffer example_locals 2 example_jvm)) = {#(7, 0x2000)#}"
  using resolve_shapes [where h = 4 and s = example_jvm and d = example_locals]
    resolve_shapes [where h = 2 and s = example_jvm and d = example_locals]
  by (simp add: example_jvm_def example_locals_def size_t_of_jlong_id size_t_of_jint_def)

text \<open>
  C5. Resolving the \<^verbatim>\<open>NULL\<close> handle gives a descriptor with a null base pointer, offset
  \<open>0\<close> and capacity \<open>0\<close>, makes no JNI call and raises nothing: the state changes by the
  one log entry of the call. Releasing that descriptor, as output or as input, makes no
  JNI call either: the state changes by the log entry of the release alone.
\<close>

theorem absent_buffer_transparent:
  "stodium_get_buffer d 0 s =
     (d\<lparr>content := 0, offset := 0, capacity := 0, is_direct := True\<rparr>,
      record_call (Call_stodium_get_buffer 0
        (d\<lparr>content := 0, offset := 0, capacity := 0, is_direct := True\<rparr>)) s) \<and>
   content (fst (stodium_get_buffer d 0 s)) = 0 \<and>
   offset (fst (stodium_get_buffer d 0 s)) = 0 \<and>
   capacity (fst (stodium_get_buffer d 0 s)) = 0 \<and>
   exception_pending (snd (stodium_get_buffer d 0 s)) = exception_pending s \<and>
   new_calls s (snd (stodium_get_buffer d 0 s)) =
     [Call_stodium_get_buffer 0 (fst (stodium_get_buffer d 0 s))] \<and>
   stodium_release_output h (fst (stodium_get_buffer d 0 s)) t =
     record_call (Call_stodium_release_output h (fst (stodium_get_buffer d 0 s))) t \<and>
   stodium_release_input h (fst (stodium_get_buffer d 0 s)) t =
     record_call (Call_stodium_release_input h (fst (stodium_get_buffer d 0 s))) t \<and>
   record_call c t = t\<lparr>calls := calls t @ [c]\<rparr>"
  by (simp add: get_buffer_null release_of_direct new_calls_def record_call_def)

theorem absent_buffer_transparent_witness:
  "fst (stodium_get_buffer example_locals 0 example_jvm) =
     \<lparr>content = 0, offset = 0, capacity = 0, is_direct = True, backing_array = 9\<rparr> \<and>
   stodium_release_output 0 (fst (stodium_get_buffer example_locals 0 example_jvm)) example_jvm =
     example_jvm\<lparr>calls := [Call_stodium_release_output 0
        \<lparr>content = 0, offset = 0, capacity = 0, is_direct = True, backing_array = 9\<rparr>]\<rparr> \<and>
   stodium_release_input 0 (fst (stodium_get_buffer example_locals 0 example_jvm)) example_jvm =
     example_jvm\<lparr>calls := [Call_stodium_release_input 0
        \<lparr>content = 0, offset = 0, capacity = 0, is_direct = True, backing_array = 9\<rparr>]\<rparr>"
  using absent_buffer_transparent [where d = example_locals and s = example_jvm
      and t = example_jvm and h = 0]
  by (simp add: get_buffer_null stodium_release_output_def stodium_release_input_def Let_def
      record_call_def example_locals_def example_jvm_def)

text \<open>
  C6. Releasing a descriptor that is not direct as an input copies nothing back: every
  Java array is as it was before the release, whatever native memory holds (also after
  the copy was overwritten). The copy the descriptor holds is freed, by
  \<^verbatim>\<open>ReleaseByteArrayElements\<close> with \<^verbatim>\<open>JNI_ABORT\<close>.
\<close>

theorem pinned_input_discarded:
  "\<not> is_direct v \<Longrightarrow>
   heap (stodium_release_input h v s) = heap s \<and>
   heap (stodium_release_input h v (s\<lparr>memory := m\<rparr>)) = heap s \<and>
   pins (stodium_release_input h v s) = pins s - pin_of v \<and>
   (content v \<noteq> 0 \<longrightarrow>
      pin_of v = {#(backing_array v, content v)#} \<and>
      new_calls s (stodium_release_input h v s) =
        [Call_stodium_release_input h v,
         Call_ReleaseByteArrayElements (backing_array v) (content v) JNI_ABORT])"
  by (simp add: release_input_frame pins_stodium_release_input release_input_calls
      new_calls_def pin_of_def)

theorem pinned_input_discarded_witness:
  "\<not> is_direct (fst (stodium_get_buffer example_locals 2 example_jvm)) \<and>
   heap (stodium_release_input 2 (fst (stodium_get_buffer example_locals 2 example_jvm))
     ((snd (stodium_get_buffer example_locals 2 example_jvm))
        \<lparr>memory := (\<lambda>a. 99)\<rparr>)) 7 = Some [10, 11, 12, 13] \<and>
   pins (snd (stodium_get_buffer example_locals 2 example_jvm)) = {#(7, 0x2000)#} \<and>
   pins (stodium_release_input 2 (fst (stodium_get_buffer example_locals 2 example_jvm))
     (snd (stodium_get_buffer example_locals 2 example_jvm))) = {#}"
  using pinned_input_discarded [where v = "fst (stodium_get_buffer example_locals 2 example_jvm)"
      and s = "snd (stodium_get_buffer example_locals 2 example_jvm)" and h = 2
      and m = "\<lambda>a. 99"]
  by (simp add: stodium_get_buffer_def jni_defs record_call_def size_t_of_jint_def Let_def
      pin_of_def example_locals_def example_jvm_def)

text \<open>
  C3, as the code has it. Releasing as an output a descriptor that is not direct and holds
  an outstanding copy of a live array copies the whole copy back, as many bytes as the
  array has, starting at \<open>content\<close>: every byte of the array becomes the byte of the copy
  at the same index, not only the bytes of the window. The other arrays and native
  memory are untouched and the copy is freed. Every wrapper makes this release for its
  destination whatever the primitive returned.
\<close>

theorem pinned_output_committed:
  "\<not> is_direct v \<Longrightarrow> heap s (backing_array v) = Some bs \<Longrightarrow>
   (backing_array v, content v) \<in># pins s \<Longrightarrow>
   heap (stodium_release_output h v s) =
     (heap s)(backing_array v \<mapsto> read_bytes (memory s) (content v) (length bs)) \<and>
   length (read_bytes (memory s) (content v) (length bs)) = length bs \<and>
   (\<forall>i<length bs. read_bytes (memory s) (content v) (length bs) ! i =
      memory s (content v + of_nat i)) \<and>
   pins (stodium_release_output h v s) = pins s - {#(backing_array v, content v)#} \<and>
   memory (stodium_release_output h v s) = memory s \<and>
   new_calls s (stodium_release_output h v s) =
     [Call_stodium_release_output h v,
      Call_ReleaseByteArrayElements (backing_array v) (content v) 0] \<and>
   (As_output, dst) \<in> set (release_order (new_calls t
      (snd (crypto_1core_1hsalsa20 hsalsa ld ls lk lc dst src key constant t)))) \<and>
   (As_output, dst) \<in> set (release_order (new_calls t
      (snd (crypto_1scalarmult_1curve25519 smult ld ls lk dst priv pub t)))) \<and>
   (As_output, dst) \<in> set (release_order (new_calls t
      (snd (crypto_1scalarmult_1curve25519_1base sbase ld ls dst src t))))"
  by (simp add: release_output_pinned read_bytes_nth length_read_bytes
      release_output_new_calls
      release_order_via_api [OF hsalsa20_new_api [unfolded split_def]]
      release_order_via_api [OF scalarmult_new_api [unfolded split_def]]
      release_order_via_api [OF base_new_api [unfolded split_def]])

theorem pinned_output_committed_witness:
  "\<not> is_direct (fst (stodium_get_buffer example_locals 2 example_jvm)) \<and>
   heap ((snd (stodium_get_buffer example_locals 2 example_jvm))
         \<lparr>memory := (memory (snd (stodium_get_buffer example_locals 2 example_jvm)))
            (0x2002 := 99)\<rparr>) 7 = Some [10, 11, 12, 13] \<and>
   heap (stodium_release_output 2 (fst (stodium_get_buffer example_locals 2 example_jvm))
      ((snd (stodium_get_buffer example_locals 2 example_jvm))
         \<lparr>memory := (memory (snd (stodium_get_buffer example_locals 2 example_jvm)))
            (0x2002 := 99)\<rparr>)) 7 = Some [10, 11, 99, 13] \<and>
   pins (stodium_release_output 2 (fst (stodium_get_buffer example_locals 2 example_jvm))
      ((snd (stodium_get_buffer example_locals 2 example_jvm))
         \<lparr>memory := (memory (snd (stodium_get_buffer example_locals 2 example_jvm)))
            (0x2002 := 99)\<rparr>)) = {#}"
  using pinned_output_committed [where v = "fst (stodium_get_buffer example_locals 2 example_jvm)"
      and s = "(snd (stodium_get_buffer example_locals 2 example_jvm))
         \<lparr>memory := (memory (snd (stodium_get_buffer example_locals 2 example_jvm)))
            (0x2002 := 99)\<rparr>"
      and bs = "[10, 11, 12, 13]" and h = 2 and t = example_jvm and dst = 2
      and hsalsa = failing_primitive4 and smult = failing_primitive3
      and sbase = failing_primitive2 and ld = example_locals and ls = example_locals
      and lk = example_locals and lc = example_locals and src = 4 and key = 0
      and ?constant = 0 and priv = 4 and pub = 0]
  by (simp add: stodium_get_buffer_def jni_defs read_bytes_def write_bytes_def record_call_def
      size_t_of_jint_def Let_def upt_rec example_jvm_def example_locals_def)

text \<open>
  C3 as stated fails. The heap buffer 2 is a window of 2 bytes at offset 1 of the array
  7, which has 4 bytes. After the byte at index 3 of its element copy is overwritten (where
  a primitive that writes 3 bytes through the output pointer writes its last byte),
  releasing the descriptor as an output changes the byte at index 3 of the array, outside
  the window.
\<close>

theorem window_commit_counterexample:
  "fst (stodium_get_buffer example_locals 2 example_jvm) =
     \<lparr>content = 0x2000, offset = 1, capacity = 2, is_direct = False, backing_array = 7\<rparr> \<and>
   heap (snd (stodium_get_buffer example_locals 2 example_jvm)) 7 = Some [10, 11, 12, 13] \<and>
   heap (stodium_release_output 2 (fst (stodium_get_buffer example_locals 2 example_jvm))
      ((snd (stodium_get_buffer example_locals 2 example_jvm))
         \<lparr>memory := (memory (snd (stodium_get_buffer example_locals 2 example_jvm)))
            (0x2003 := 99)\<rparr>)) 7 = Some [10, 11, 12, 99]"
  by (simp add: stodium_get_buffer_def jni_defs stodium_release_output_def
      ReleaseByteArrayElements_def read_bytes_def write_bytes_def record_call_def
      size_t_of_jint_def Let_def upt_rec example_jvm_def example_locals_def)

section \<open>Failing resolutions\<close>

text \<open>
  C2, as the code has it. When the runtime cannot copy the elements of a handle's backing
  array (\<^verbatim>\<open>GetByteArrayElements\<close> returns \<^verbatim>\<open>NULL\<close>), \<open>stodium_get_buffer\<close> does not fail: it
  raises nothing, makes its remaining calls and returns a descriptor that is not direct,
  with a null base pointer. The invocation is not aborted. In every run in which the
  resolutions stay within the JNI specification and the destination's descriptor is
  direct or has a base pointer, the wrapper calls the primitive exactly once and returns
  its status, no exception is pending, and every element copy the invocation made is
  released before it returns: the destination's committed, the inputs' discarded, nothing
  for an input whose copy could not be made; no JNI call is made on a null array or a null
  element pointer. Nothing is stated for a run in which \<^verbatim>\<open>array()\<close>,
  \<^verbatim>\<open>arrayOffset()\<close> or \<^verbatim>\<open>remaining()\<close> throws or the destination's copy cannot be made:
  there the code goes on to calls the JNI specification leaves undefined.
\<close>

theorem failed_pin_continues:
  "(h \<noteq> 0 \<and> direct_address s h = 0 \<and>
    object_method s stodium_g_byte_buffer_method_array h = Some a \<and> a \<noteq> 0 \<and>
    heap s a = Some bs \<and> copy_address s (copies_made s) = 0 \<and>
    int_method s stodium_g_byte_buffer_method_array_offset h = Some off \<and>
    int_method s stodium_g_byte_buffer_method_remaining h = Some rem \<longrightarrow>
      fst (stodium_get_buffer d h s) =
        \<lparr>content = 0, offset = size_t_of_jint off, capacity = size_t_of_jint rem,
           is_direct = False, backing_array = a\<rparr> \<and>
      exception_pending (snd (stodium_get_buffer d h s)) = exception_pending s \<and>
      pins (snd (stodium_get_buffer d h s)) = pins s \<and>
      heap (snd (stodium_get_buffer d h s)) = heap s \<and>
      memory (snd (stodium_get_buffer d h s)) = memory s \<and>
      new_calls s (snd (stodium_get_buffer d h s)) =
        [Call_GetDirectBufferAddress h,
         Call_CallObjectMethod h stodium_g_byte_buffer_method_array,
         Call_GetByteArrayElements a,
         Call_CallIntMethod h stodium_g_byte_buffer_method_array_offset,
         Call_CallIntMethod h stodium_g_byte_buffer_method_remaining,
         Call_stodium_get_buffer h (fst (stodium_get_buffer d h s))]) \<and>
   (case stodium_get_buffer ld dst s of (vd, sd) \<Rightarrow>
    case stodium_get_buffer ls src sd of (vs, ss) \<Rightarrow>
    case stodium_get_buffer lk key ss of (vk, sk) \<Rightarrow>
    case stodium_get_buffer lc constant sk of (vc, sc) \<Rightarrow>
      \<not> exception_pending s \<and> no_null_pin s \<and>
      resolution_defined s dst \<and> resolution_defined s src \<and>
      resolution_defined s key \<and> resolution_defined s constant \<and>
      (is_direct vd \<or> content vd \<noteq> 0) \<longrightarrow>
        map snd (primitive_calls (new_calls s
            (snd (crypto_1core_1hsalsa20 hsalsa ld ls lk lc dst src key constant s)))) =
          [fst (crypto_1core_1hsalsa20 hsalsa ld ls lk lc dst src key constant s)] \<and>
        \<not> exception_pending
            (snd (crypto_1core_1hsalsa20 hsalsa ld ls lk lc dst src key constant s)) \<and>
        pins (snd (crypto_1core_1hsalsa20 hsalsa ld ls lk lc dst src key constant s)) =
          pins s \<and>
        jni_releases (new_calls s
            (snd (crypto_1core_1hsalsa20 hsalsa ld ls lk lc dst src key constant s))) =
          commit_call vd @ discard_call vs @ discard_call vk @ discard_call vc \<and>
        (\<forall>r\<in>set (jni_releases (new_calls s
            (snd (crypto_1core_1hsalsa20 hsalsa ld ls lk lc dst src key constant s)))).
           fst (snd r) \<noteq> 0) \<and>
        0 \<notin> set (pin_requests (new_calls s
            (snd (crypto_1core_1hsalsa20 hsalsa ld ls lk lc dst src key constant s))))) \<and>
   (case stodium_get_buffer ld dst s of (vd, sd) \<Rightarrow>
    case stodium_get_buffer ls priv sd of (vs, ss) \<Rightarrow>
    case stodium_get_buffer lk pub ss of (vk, sk) \<Rightarrow>
      \<not> exception_pending s \<and> no_null_pin s \<and>
      resolution_defined s dst \<and> resolution_defined s priv \<and> resolution_defined s pub \<and>
      (is_direct vd \<or> content vd \<noteq> 0) \<longrightarrow>
        map snd (primitive_calls (new_calls s
            (snd (crypto_1scalarmult_1curve25519 smult ld ls lk dst priv pub s)))) =
          [fst (crypto_1scalarmult_1curve25519 smult ld ls lk dst priv pub s)] \<and>
        \<not> exception_pending
            (snd (crypto_1scalarmult_1curve25519 smult ld ls lk dst priv pub s)) \<and>
        pins (snd (crypto_1scalarmult_1curve25519 smult ld ls lk dst priv pub s)) = pins s \<and>
        jni_releases (new_calls s
            (snd (crypto_1scalarmult_1curve25519 smult ld ls lk dst priv pub s))) =
          commit_call vd @ discard_call vs @ discard_call vk \<and>
        (\<forall>r\<in>set (jni_releases (new_calls s
            (snd (crypto_1scalarmult_1curve25519 smult ld ls lk dst priv pub s)))).
           fst (snd r) \<noteq> 0) \<and>
        0 \<notin> set (pin_requests (new_calls s
            (snd (crypto_1scalarmult_1curve25519 smult ld ls lk dst priv pub s))))) \<and>
   (case stodium_get_buffer ld dst s of (vd, sd) \<Rightarrow>
    case stodium_get_buffer ls src sd of (vs, ss) \<Rightarrow>
      \<not> exception_pending s \<and> no_null_pin s \<and>
      resolution_defined s dst \<and> resolution_defined s src \<and>
      (is_direct vd \<or> content vd \<noteq> 0) \<longrightarrow>
        map snd (primitive_calls (new_calls s
            (snd (crypto_1scalarmult_1curve25519_1base sbase ld ls dst src s)))) =
          [fst (crypto_1scalarmult_1curve25519_1base sbase ld ls dst src s)] \<and>
        \<not> exception_pending
            (snd (crypto_1scalarmult_1curve25519_1base sbase ld ls dst src s)) \<and>
        pins (snd (crypto_1scalarmult_1curve25519_1base sbase ld ls dst src s)) = pins s \<and>
        jni_releases (new_calls s
            (snd (crypto_1scalarmult_1curve25519_1base sbase ld ls dst src s))) =
          commit_call vd @ discard_call vs \<and>
        (\<forall>r\<in>set (jni_releases (new_calls s
            (snd (crypto_1scalarmult_1curve25519_1base sbase ld ls dst src s)))).
           fst (snd r) \<noteq> 0) \<and>
        0 \<notin> set (pin_requests (new_calls s
            (snd (crypto_1scalarmult_1curve25519_1base sbase ld ls dst src s)))))"
proof -
  have resolver: "h \<noteq> 0 \<and> direct_address s h = 0 \<and>
    object_method s stodium_g_byte_buffer_method_array h = Some a \<and> a \<noteq> 0 \<and>
    heap s a = Some bs \<and> copy_address s (copies_made s) = 0 \<and>
    int_method s stodium_g_byte_buffer_method_array_offset h = Some off \<and>
    int_method s stodium_g_byte_buffer_method_remaining h = Some rem \<longrightarrow>
      fst (stodium_get_buffer d h s) =
        \<lparr>content = 0, offset = size_t_of_jint off, capacity = size_t_of_jint rem,
           is_direct = False, backing_array = a\<rparr> \<and>
      exception_pending (snd (stodium_get_buffer d h s)) = exception_pending s \<and>
      pins (snd (stodium_get_buffer d h s)) = pins s \<and>
      heap (snd (stodium_get_buffer d h s)) = heap s \<and>
      memory (snd (stodium_get_buffer d h s)) = memory s \<and>
      new_calls s (snd (stodium_get_buffer d h s)) =
        [Call_GetDirectBufferAddress h,
         Call_CallObjectMethod h stodium_g_byte_buffer_method_array,
         Call_GetByteArrayElements a,
         Call_CallIntMethod h stodium_g_byte_buffer_method_array_offset,
         Call_CallIntMethod h stodium_g_byte_buffer_method_remaining,
         Call_stodium_get_buffer h (fst (stodium_get_buffer d h s))]"
    by (simp add: get_buffer_pin_fails new_calls_def)
  have commit: "fst (snd r) \<noteq> 0"
    if "r \<in> set (commit_call v)" and "is_direct v \<or> content v \<noteq> 0" for r v
    using that commit_call_no_null [of v] by auto
  have discard: "fst (snd r) \<noteq> 0" if "r \<in> set (discard_call v)" for r v
    using that discard_call_no_null [of v] by auto
  have request: "False" if "0 \<in> set (pin_request s h)" and "resolution_defined s h" for h
    using that resolution_defined_no_null_request [of s h] by auto
  show ?thesis
    using resolver
    by (simp add: split_def
        primitive_calls_via_api [OF hsalsa20_new_api [unfolded split_def]]
        primitive_calls_via_api [OF scalarmult_new_api [unfolded split_def]]
        primitive_calls_via_api [OF base_new_api [unfolded split_def]]
        hsalsa20_api [unfolded split_def] scalarmult_api [unfolded split_def]
        base_api [unfolded split_def]
        hsalsa20_throws scalarmult_throws base_throws resolution_defined_no_throw
        hsalsa20_pins scalarmult_pins base_pins
        hsalsa20_jni_releases [unfolded split_def] scalarmult_jni_releases [unfolded split_def]
        base_jni_releases [unfolded split_def]
        hsalsa20_pin_requests scalarmult_pin_requests base_pin_requests
        del: set_append)
      (auto dest: commit discard request)
qed

theorem failed_pin_continues_witness:
  "(2::nat) \<noteq> 0 \<and> direct_address example_jvm_no_room 2 = 0 \<and>
   object_method example_jvm_no_room stodium_g_byte_buffer_method_array 2 = Some 7 \<and>
   heap example_jvm_no_room 7 = Some [10, 11, 12, 13] \<and>
   copy_address example_jvm_no_room (copies_made example_jvm_no_room) = 0 \<and>
   fst (stodium_get_buffer example_locals 2 example_jvm_no_room) =
     \<lparr>content = 0, offset = 1, capacity = 2, is_direct = False, backing_array = 7\<rparr> \<and>
   \<not> exception_pending example_jvm_no_room \<and> no_null_pin example_jvm_no_room \<and>
   resolution_defined example_jvm_no_room 4 \<and> resolution_defined example_jvm_no_room 2 \<and>
   is_direct (fst (stodium_get_buffer example_locals 4 example_jvm_no_room)) \<and>
   map snd (primitive_calls (new_calls example_jvm_no_room
     (snd (crypto_1scalarmult_1curve25519_1base failing_primitive2
        example_locals example_locals 4 2 example_jvm_no_room)))) = [- 1] \<and>
   \<not> exception_pending (snd (crypto_1scalarmult_1curve25519_1base failing_primitive2
        example_locals example_locals 4 2 example_jvm_no_room)) \<and>
   pins (snd (crypto_1scalarmult_1curve25519_1base failing_primitive2
        example_locals example_locals 4 2 example_jvm_no_room)) = {#} \<and>
   jni_releases (new_calls example_jvm_no_room
     (snd (crypto_1scalarmult_1curve25519_1base failing_primitive2
        example_locals example_locals 4 2 example_jvm_no_room))) = []"
proof -
  have f: "direct_address example_jvm_no_room 2 = 0"
    "object_method example_jvm_no_room stodium_g_byte_buffer_method_array 2 = Some 7"
    "heap example_jvm_no_room 7 = Some [10, 11, 12, 13]"
    "int_method example_jvm_no_room stodium_g_byte_buffer_method_array_offset 2 = Some 1"
    "int_method example_jvm_no_room stodium_g_byte_buffer_method_remaining 2 = Some 2"
    "\<not> exception_pending example_jvm_no_room"
    by (simp_all add: example_no_room_fields example_jvm_fields)
  have n: "no_null_pin example_jvm_no_room"
    by (simp add: no_null_pin_def example_no_room_more)
  have r: "resolution_defined example_jvm_no_room 4" "resolution_defined example_jvm_no_room 2"
    by (simp_all add: resolution_defined_def example_no_room_fields example_jvm_fields)
  have st: "fst (crypto_1scalarmult_1curve25519_1base failing_primitive2
        example_locals example_locals 4 2 example_jvm_no_room) = - 1"
    by (simp add: base_api [unfolded split_def] failing_primitive2_def)
  note w = failed_pin_continues [where h = 2 and s = example_jvm_no_room and a = 7
      and bs = "[10, 11, 12, 13]" and off = 1 and rem = 2 and d = example_locals
      and hsalsa = failing_primitive4 and smult = failing_primitive3
      and sbase = failing_primitive2 and ld = example_locals and ls = example_locals
      and lk = example_locals and lc = example_locals and dst = 4 and src = 2 and key = 0
      and ?constant = 0 and priv = 2 and pub = 0]
  show ?thesis
    using w [THEN conjunct1] w [THEN conjunct2, THEN conjunct2, THEN conjunct2]
    by (simp add: f n r st example_no_room_direct example_no_room_heap example_no_room_fields
        example_jvm_fields example_no_room_more commit_call_def discard_call_def
        size_t_of_jint_def)
qed

text \<open>
  C2 as stated fails. With no room for an element copy, \<^verbatim>\<open>GetByteArrayElements\<close> returns
  \<^verbatim>\<open>NULL\<close> for the input buffer 2. The resolver goes on to read the offset and the
  remaining length, the wrapper calls the primitive and returns its status \<open>-1\<close>, and no
  exception is pending. The log is the whole invocation: every JNI call in it is within
  the JNI specification.
\<close>

theorem failed_pin_counterexample:
  "copy_address example_jvm_no_room (copies_made example_jvm_no_room) = 0 \<and>
   new_calls example_jvm_no_room
     (snd (crypto_1scalarmult_1curve25519_1base failing_primitive2
        example_locals example_locals 4 2 example_jvm_no_room)) =
     [Call_GetDirectBufferAddress 4, Call_GetDirectBufferCapacity 4,
      Call_stodium_get_buffer 4
        \<lparr>content = 0x1000, offset = 0, capacity = 32, is_direct = True, backing_array = 9\<rparr>,
      Call_GetDirectBufferAddress 2,
      Call_CallObjectMethod 2 stodium_g_byte_buffer_method_array,
      Call_GetByteArrayElements 7,
      Call_CallIntMethod 2 stodium_g_byte_buffer_method_array_offset,
      Call_CallIntMethod 2 stodium_g_byte_buffer_method_remaining,
      Call_stodium_get_buffer 2
        \<lparr>content = 0, offset = 1, capacity = 2, is_direct = False, backing_array = 7\<rparr>,
      Call_primitive [0x1000, 1] (- 1),
      Call_stodium_release_output 4
        \<lparr>content = 0x1000, offset = 0, capacity = 32, is_direct = True, backing_array = 9\<rparr>,
      Call_stodium_release_input 2
        \<lparr>content = 0, offset = 1, capacity = 2, is_direct = False, backing_array = 7\<rparr>] \<and>
   fst (crypto_1scalarmult_1curve25519_1base failing_primitive2
        example_locals example_locals 4 2 example_jvm_no_room) = - 1 \<and>
   exception_pending (snd (crypto_1scalarmult_1curve25519_1base failing_primitive2
        example_locals example_locals 4 2 example_jvm_no_room)) = False"
  by (simp add: crypto_1scalarmult_1curve25519_1base_def example_no_room_direct
      example_no_room_heap call_primitive_def stodium_release_output_def
      stodium_release_input_def record_call_def new_calls_def failing_primitive2_def
      AS_OUTPUT_def AS_INPUT_def Let_def example_no_room_fields example_jvm_fields)

end
